theory Spec2Isabelle
  imports Main
begin

section \<open>RPC data types\<close>

text \<open>
  The handler is \<open>dialog_service_handler\<close> of \<open>rpc/dialog_server.h\<close>. The types of
  the generated service interface that it names are declared elsewhere.
\<close>

text \<open>
  Modelled from the spec: the enums \<open>rpc_iterator_type\<close> and \<open>rpc_data_type\<close>,
  whose declarations are missing. The specification has the cursor kinds ADHOC, PREDEF,
  COMBINED and ALERTS; the constructors are the enumerators that the handler writes.
\<close>

datatype rpc_iterator_type = RPC_ADHOC | RPC_PREDEF | RPC_COMBINED | RPC_ALERTS

datatype rpc_data_type = RPC_RECORD | RPC_ALERT

text \<open>
  The integer typedefs \<open>rpc_handler_id\<close> and \<open>rpc_iterator_id\<close> are declared
  outside the sources. Their values are integers; the bit width of \<open>rpc_iterator_id\<close>
  is a parameter, the field \<open>iterator_id_bits\<close> of the environment below, and
  \<open>iterator_id_++\<close> wraps around at that width.
\<close>

type_synonym rpc_handler_id = int
type_synonym rpc_iterator_id = int

text \<open>
  Modelled from the spec: \<open>record_t\<close>, whose declaration is missing. A record is a
  contiguous byte sequence: here the \<open>rec.length()\<close> bytes at \<open>rec.data()\<close>.
\<close>

type_synonym record_t = string

text \<open>
  Modelled from the spec: the structs \<open>rpc_iterator_descriptor\<close> and
  \<open>rpc_iterator_handle\<close>, whose declarations are missing. The specification gives
  \<open>iterator_handle = {descriptor{data_type, handler_id, id, kind}, data, num_entries,
  has_more}\<close>; the field names are those the handler assigns, with \<open>id\<close> and
  \<open>type\<close> written \<open>id_desc\<close> and \<open>type_desc\<close>. \<open>num_entries\<close> receives the
  loop counter.
\<close>

record rpc_iterator_descriptor =
  data_type :: rpc_data_type
  handler_id :: rpc_handler_id
  id_desc :: rpc_iterator_id
  type_desc :: rpc_iterator_type

record rpc_iterator_handle =
  desc :: rpc_iterator_descriptor
  data :: string
  num_entries :: nat
  has_more :: bool

section \<open>Exceptions\<close>

text \<open>
  Modelled from the spec: the exception classes \<open>management_exception\<close> and
  \<open>parse_exception\<close>, whose declarations are missing, each with the message of
  \<open>what()\<close>; \<open>other_exception\<close> is any exception that is neither.
\<close>

datatype table_exception =
  management_exception string
| parse_exception string
| other_exception string

text \<open>
  What a handler method lets out: the two RPC exceptions it builds itself, with their
  \<open>msg\<close>, an exception of the store or the table that it does not catch, the
  dereference of a null \<open>cur_table_\<close>, which the code does not guard, and the
  \<open>std::length_error\<close> of \<open>std::string::assign\<close> in \<open>read\<close>.
\<close>

datatype rpc_exception =
  rpc_management_exception string
| rpc_invalid_operation string
| uncaught table_exception
| null_table
| length_error

section \<open>The collaborators of a handler\<close>

text \<open>
  The thread manager, the type conversions, the store, the table behind \<open>cur_table_\<close>,
  the alerts and the configuration constant are what a handler method calls; none of them
  is among the sources. Their answers at the moment of one call are the fields of an
  environment, a parameter of every method; a later call may see another environment,
  since tables change under the appends of any session. Type variables stand for the table
  pointer \<open>'t\<close>, the alert \<open>'a\<close>, the RPC and store forms of schema, storage mode and
  record batch, and the bucket size \<open>'d\<close>. What a table method throws is a
  \<open>table_exception\<close>. \<open>iterator_id_bits\<close> is the bit width of the typedef
  \<open>rpc_iterator_id\<close> and \<open>string_max_size\<close> is \<open>max_size()\<close> of
  \<open>std::string\<close>.

  Modelled from the spec: the stream types \<open>fri_result_type\<close>,
  \<open>filter_rstream_type\<close> and \<open>ffilter_rstream_type\<close> and the alert list of
  \<open>dialog_table\<close>, whose declarations are missing. A stream is single-pass over a
  finite sequence fixed when it is created: it is the list of the records it still has to
  give, \<open>has_more\<close> is non-emptiness, \<open>get\<close> the head and \<open>++\<close> the tail. A
  pair of alert iterators is the list of the alerts between them.
\<close>

record ('t, 'a, 'rs, 's, 'rm, 'm, 'rb, 'b, 'd) environment =
  register_thread :: int
  deregister_thread :: int
  convert_schema :: "'rs \<Rightarrow> 's"
  convert_schema_to_rpc :: "'s \<Rightarrow> 'rs"
  convert_mode :: "'rm \<Rightarrow> 'm"
  convert_batch :: "'rb \<Rightarrow> 'b"
  store_add_table :: "string \<Rightarrow> 's \<Rightarrow> 'm \<Rightarrow> table_exception + int"
  store_get_table :: "string \<Rightarrow> table_exception + 't"
  tbl_schema_columns :: "'t \<Rightarrow> 's"
  tbl_add_index :: "'t \<Rightarrow> string \<Rightarrow> 'd \<Rightarrow> table_exception + unit"
  tbl_remove_index :: "'t \<Rightarrow> string \<Rightarrow> table_exception + unit"
  tbl_add_filter :: "'t \<Rightarrow> string \<Rightarrow> string \<Rightarrow> table_exception + unit"
  tbl_remove_filter :: "'t \<Rightarrow> string \<Rightarrow> table_exception + unit"
  tbl_add_trigger :: "'t \<Rightarrow> string \<Rightarrow> string \<Rightarrow> string \<Rightarrow> table_exception + unit"
  tbl_remove_trigger :: "'t \<Rightarrow> string \<Rightarrow> table_exception + unit"
  tbl_append :: "'t \<Rightarrow> string \<Rightarrow> int"
  tbl_append_batch :: "'t \<Rightarrow> 'b \<Rightarrow> int"
  tbl_read :: "'t \<Rightarrow> int \<Rightarrow> nat \<Rightarrow> string"
  tbl_record_size :: "'t \<Rightarrow> nat"
  tbl_execute_filter :: "'t \<Rightarrow> string \<Rightarrow> table_exception + record_t list"
  tbl_query_filter :: "'t \<Rightarrow> string \<Rightarrow> int \<Rightarrow> int \<Rightarrow> table_exception + record_t list"
  tbl_query_filter_expr ::
    "'t \<Rightarrow> string \<Rightarrow> string \<Rightarrow> int \<Rightarrow> int \<Rightarrow> table_exception + record_t list"
  tbl_get_alerts :: "'t \<Rightarrow> int \<Rightarrow> int \<Rightarrow> table_exception + 'a list"
  tbl_num_records :: "'t \<Rightarrow> int"
  alert_to_string :: "'a \<Rightarrow> string"
  ITERATOR_BATCH_SIZE :: nat
  iterator_id_bits :: nat
  string_max_size :: nat

section \<open>The handler\<close>

text \<open>
  The members \<open>handler_id_\<close>, \<open>cur_table_\<close>, \<open>iterator_id_\<close>, \<open>adhoc_\<close>,
  \<open>predef_\<close>, \<open>combined_\<close> and \<open>alerts_\<close> of \<open>dialog_service_handler\<close>, written
  with the suffix \<open>_m\<close>. The four \<open>std::map\<close>s are maps from iterator id to
  stream. The member \<open>store_\<close> never changes and is part of the environment. A null
  \<open>cur_table_\<close> is \<open>None\<close>.
\<close>

record ('t, 'a) handler =
  handler_id_m :: rpc_handler_id
  cur_table_m :: "'t option"
  iterator_id_m :: rpc_iterator_id
  adhoc_m :: "rpc_iterator_id \<rightharpoonup> record_t list"
  predef_m :: "rpc_iterator_id \<rightharpoonup> record_t list"
  combined_m :: "rpc_iterator_id \<rightharpoonup> record_t list"
  alerts_m :: "rpc_iterator_id \<rightharpoonup> 'a list"

text \<open>The constructor.\<close>

definition dialog_service_handler :: "('t, 'a) handler" where
  "dialog_service_handler =
     \<lparr>handler_id_m = - 1, cur_table_m = None, iterator_id_m = 0,
      adhoc_m = Map.empty, predef_m = Map.empty, combined_m = Map.empty,
      alerts_m = Map.empty\<rparr>"

text \<open>
  A method returns the exception it throws or its result, together with the handler as the
  call leaves it. The out-parameter \<open>_return\<close> of the cursor methods is passed in, since
  they append to its \<open>data\<close>; when a method throws, the caller gets the exception only.
\<close>

definition register_handler ::
  "('t, 'a, 'rs, 's, 'rm, 'm, 'rb, 'b, 'd) environment \<Rightarrow> ('t, 'a) handler
   \<Rightarrow> (rpc_exception + unit) \<times> ('t, 'a) handler" where
  "register_handler env h =
     (let h1 = h\<lparr>handler_id_m := register_thread env\<rparr>
      in if handler_id_m h1 < 0
         then (Inl (rpc_management_exception ''Could not register handler''), h1)
         else (Inr (), h1))"

definition deregister_handler ::
  "('t, 'a, 'rs, 's, 'rm, 'm, 'rb, 'b, 'd) environment \<Rightarrow> ('t, 'a) handler
   \<Rightarrow> (rpc_exception + unit) \<times> ('t, 'a) handler" where
  "deregister_handler env h =
     (let ret = deregister_thread env
      in if ret < 0
         then (Inl (rpc_management_exception ''Could not deregister handler''), h)
         else (Inr (), h))"

text \<open>The catch clause of the methods that catch a \<open>management_exception\<close> only: the
  message goes into an \<open>rpc_management_exception\<close>, anything else passes.\<close>

definition catch_management :: "table_exception \<Rightarrow> rpc_exception" where
  "catch_management ex =
     (case ex of management_exception msg \<Rightarrow> rpc_management_exception msg
      | _ \<Rightarrow> uncaught ex)"

text \<open>The catch clauses of \<open>add_filter\<close> and \<open>add_trigger\<close>, which catch a
  \<open>parse_exception\<close> as well.\<close>

definition catch_management_parse :: "table_exception \<Rightarrow> rpc_exception" where
  "catch_management_parse ex =
     (case ex of management_exception msg \<Rightarrow> rpc_management_exception msg
      | parse_exception msg \<Rightarrow> rpc_management_exception msg
      | _ \<Rightarrow> uncaught ex)"

text \<open>The catch clause of \<open>adhoc_filter\<close> and \<open>combined_filter\<close>: the message of a
  \<open>parse_exception\<close> goes into an \<open>rpc_invalid_operation\<close>.\<close>

definition catch_parse :: "table_exception \<Rightarrow> rpc_exception" where
  "catch_parse ex =
     (case ex of parse_exception msg \<Rightarrow> rpc_invalid_operation msg
      | _ \<Rightarrow> uncaught ex)"

definition create_table ::
  "('t, 'a, 'rs, 's, 'rm, 'm, 'rb, 'b, 'd) environment \<Rightarrow> ('t, 'a) handler
   \<Rightarrow> string \<Rightarrow> 'rs \<Rightarrow> 'rm \<Rightarrow> (rpc_exception + unit) \<times> ('t, 'a) handler" where
  "create_table env h table_name schema mode =
     (case store_add_table env table_name (convert_schema env schema) (convert_mode env mode) of
        Inl ex \<Rightarrow> (Inl (catch_management ex), h)
      | Inr _ \<Rightarrow> (Inr (), h))"

definition set_current_table ::
  "('t, 'a, 'rs, 's, 'rm, 'm, 'rb, 'b, 'd) environment \<Rightarrow> ('t, 'a) handler
   \<Rightarrow> string \<Rightarrow> (rpc_exception + 'rs) \<times> ('t, 'a) handler" where
  "set_current_table env h table_name =
     (case store_get_table env table_name of
        Inl ex \<Rightarrow> (Inl (catch_management ex), h)
      | Inr t \<Rightarrow>
          (let h1 = h\<lparr>cur_table_m := Some t\<rparr>;
               schema = tbl_schema_columns env t
           in (Inr (convert_schema_to_rpc env schema), h1)))"

definition add_index ::
  "('t, 'a, 'rs, 's, 'rm, 'm, 'rb, 'b, 'd) environment \<Rightarrow> ('t, 'a) handler
   \<Rightarrow> string \<Rightarrow> 'd \<Rightarrow> (rpc_exception + unit) \<times> ('t, 'a) handler" where
  "add_index env h field_name bucket_size =
     (case cur_table_m h of
        None \<Rightarrow> (Inl null_table, h)
      | Some t \<Rightarrow>
          (case tbl_add_index env t field_name bucket_size of
             Inl ex \<Rightarrow> (Inl (catch_management ex), h)
           | Inr _ \<Rightarrow> (Inr (), h)))"

definition remove_index ::
  "('t, 'a, 'rs, 's, 'rm, 'm, 'rb, 'b, 'd) environment \<Rightarrow> ('t, 'a) handler
   \<Rightarrow> string \<Rightarrow> (rpc_exception + unit) \<times> ('t, 'a) handler" where
  "remove_index env h field_name =
     (case cur_table_m h of
        None \<Rightarrow> (Inl null_table, h)
      | Some t \<Rightarrow>
          (case tbl_remove_index env t field_name of
             Inl ex \<Rightarrow> (Inl (catch_management ex), h)
           | Inr _ \<Rightarrow> (Inr (), h)))"

definition add_filter ::
  "('t, 'a, 'rs, 's, 'rm, 'm, 'rb, 'b, 'd) environment \<Rightarrow> ('t, 'a) handler
   \<Rightarrow> string \<Rightarrow> string \<Rightarrow> (rpc_exception + unit) \<times> ('t, 'a) handler" where
  "add_filter env h filter_name filter_expr =
     (case cur_table_m h of
        None \<Rightarrow> (Inl null_table, h)
      | Some t \<Rightarrow>
          (case tbl_add_filter env t filter_name filter_expr of
             Inl ex \<Rightarrow> (Inl (catch_management_parse ex), h)
           | Inr _ \<Rightarrow> (Inr (), h)))"

definition remove_filter ::
  "('t, 'a, 'rs, 's, 'rm, 'm, 'rb, 'b, 'd) environment \<Rightarrow> ('t, 'a) handler
   \<Rightarrow> string \<Rightarrow> (rpc_exception + unit) \<times> ('t, 'a) handler" where
  "remove_filter env h filter_name =
     (case cur_table_m h of
        None \<Rightarrow> (Inl null_table, h)
      | Some t \<Rightarrow>
          (case tbl_remove_filter env t filter_name of
             Inl ex \<Rightarrow> (Inl (catch_management ex), h)
           | Inr _ \<Rightarrow> (Inr (), h)))"

definition add_trigger ::
  "('t, 'a, 'rs, 's, 'rm, 'm, 'rb, 'b, 'd) environment \<Rightarrow> ('t, 'a) handler
   \<Rightarrow> string \<Rightarrow> string \<Rightarrow> string \<Rightarrow> (rpc_exception + unit) \<times> ('t, 'a) handler" where
  "add_trigger env h trigger_name filter_name trigger_expr =
     (case cur_table_m h of
        None \<Rightarrow> (Inl null_table, h)
      | Some t \<Rightarrow>
          (case tbl_add_trigger env t trigger_name filter_name trigger_expr of
             Inl ex \<Rightarrow> (Inl (catch_management_parse ex), h)
           | Inr _ \<Rightarrow> (Inr (), h)))"

definition remove_trigger ::
  "('t, 'a, 'rs, 's, 'rm, 'm, 'rb, 'b, 'd) environment \<Rightarrow> ('t, 'a) handler
   \<Rightarrow> string \<Rightarrow> (rpc_exception + unit) \<times> ('t, 'a) handler" where
  "remove_trigger env h trigger_name =
     (case cur_table_m h of
        None \<Rightarrow> (Inl null_table, h)
      | Some t \<Rightarrow>
          (case tbl_remove_trigger env t trigger_name of
             Inl ex \<Rightarrow> (Inl (catch_management ex), h)
           | Inr _ \<Rightarrow> (Inr (), h)))"

text \<open>The data path: \<open>append\<close>, \<open>append_batch\<close>, \<open>read\<close> and \<open>num_records\<close>
  catch nothing. The byte count of \<open>read\<close> is the product converted to a \<open>size_t\<close>
  of 64 bits;
  \<open>_return.assign\<close> throws \<open>std::length_error\<close> when the count is above
  \<open>max_size()\<close>.\<close>

definition append_rpc ::
  "('t, 'a, 'rs, 's, 'rm, 'm, 'rb, 'b, 'd) environment \<Rightarrow> ('t, 'a) handler
   \<Rightarrow> string \<Rightarrow> (rpc_exception + int) \<times> ('t, 'a) handler" where
  "append_rpc env h dat =
     (case cur_table_m h of
        None \<Rightarrow> (Inl null_table, h)
      | Some t \<Rightarrow> (Inr (tbl_append env t dat), h))"

definition append_batch ::
  "('t, 'a, 'rs, 's, 'rm, 'm, 'rb, 'b, 'd) environment \<Rightarrow> ('t, 'a) handler
   \<Rightarrow> 'rb \<Rightarrow> (rpc_exception + int) \<times> ('t, 'a) handler" where
  "append_batch env h batch =
     (let rbatch = convert_batch env batch
      in case cur_table_m h of
           None \<Rightarrow> (Inl null_table, h)
         | Some t \<Rightarrow> (Inr (tbl_append_batch env t rbatch), h))"

definition read_rpc ::
  "('t, 'a, 'rs, 's, 'rm, 'm, 'rb, 'b, 'd) environment \<Rightarrow> ('t, 'a) handler
   \<Rightarrow> int \<Rightarrow> int \<Rightarrow> (rpc_exception + string) \<times> ('t, 'a) handler" where
  "read_rpc env h offset nrecords =
     (case cur_table_m h of
        None \<Rightarrow> (Inl null_table, h)
      | Some t \<Rightarrow>
          (let count = nat ((nrecords * int (tbl_record_size env t)) mod 2 ^ 64)
           in if string_max_size env < count
              then (Inl length_error, h)
              else (Inr (tbl_read env t offset count), h)))"

definition num_records ::
  "('t, 'a, 'rs, 's, 'rm, 'm, 'rb, 'b, 'd) environment \<Rightarrow> ('t, 'a) handler
   \<Rightarrow> (rpc_exception + int) \<times> ('t, 'a) handler" where
  "num_records env h =
     (case cur_table_m h of
        None \<Rightarrow> (Inl null_table, h)
      | Some t \<Rightarrow> (Inr (tbl_num_records env t), h))"

subsection \<open>Cursors\<close>

text \<open>
  A value brought into the range of a two's-complement integer of \<open>bits\<close> bits, from
  \<open>- 2 ^ (bits - 1)\<close> up to and not including \<open>2 ^ (bits - 1)\<close>.
\<close>

definition wrap_id :: "nat \<Rightarrow> int \<Rightarrow> int" where
  "wrap_id bits x = (x + 2 ^ (bits - 1)) mod 2 ^ bits - 2 ^ (bits - 1)"

text \<open>
  \<open>++\<close> on an \<open>rpc_iterator_id\<close> of \<open>bits\<close> bits: one more, and from the
  largest value to the smallest. (C++ leaves the overflow of a signed integer undefined;
  this is the wrap-around of the machine.)
\<close>

definition increment_id :: "nat \<Rightarrow> rpc_iterator_id \<Rightarrow> rpc_iterator_id" where
  "increment_id bits x = wrap_id bits (x + 1)"

text \<open>\<open>new_iterator_id\<close>: \<open>return iterator_id_++\<close>.\<close>

definition new_iterator_id ::
  "('t, 'a, 'rs, 's, 'rm, 'm, 'rb, 'b, 'd) environment \<Rightarrow> ('t, 'a) handler
   \<Rightarrow> rpc_iterator_id \<times> ('t, 'a) handler" where
  "new_iterator_id env h =
     (iterator_id_m h, h\<lparr>iterator_id_m := increment_id (iterator_id_bits env) (iterator_id_m h)\<rparr>)"

text \<open>\<open>std::map::insert\<close>: an existing key keeps its value and the second component is
  false.\<close>

definition map_insert :: "('k \<rightharpoonup> 'v) \<Rightarrow> 'k \<Rightarrow> 'v \<Rightarrow> ('k \<rightharpoonup> 'v) \<times> bool" where
  "map_insert m k v = (case m k of None \<Rightarrow> (m(k \<mapsto> v), True) | Some _ \<Rightarrow> (m, False))"

text \<open>The loop of \<open>adhoc_more\<close>, \<open>predef_more\<close> and \<open>combined_more\<close>, on the stream,
  the counter \<open>i\<close> and \<open>_return.data\<close>.\<close>

function record_loop ::
  "nat \<Rightarrow> record_t list \<Rightarrow> nat \<Rightarrow> string \<Rightarrow> record_t list \<times> nat \<times> string" where
  "record_loop to_read res i dat =
     (if res \<noteq> [] \<and> i < to_read
      then record_loop to_read (tl res) (Suc i) (dat @ hd res)
      else (res, i, dat))"
  by pat_completeness auto
termination
  by (relation "measure (\<lambda>(to_read, res, i, dat). to_read - i)") auto

text \<open>The loop of \<open>alerts_more\<close>: the text of the alert, then a newline.\<close>

function alert_loop ::
  "('a \<Rightarrow> string) \<Rightarrow> nat \<Rightarrow> 'a list \<Rightarrow> nat \<Rightarrow> string \<Rightarrow> 'a list \<times> nat \<times> string" where
  "alert_loop to_string to_read it i dat =
     (if it \<noteq> [] \<and> i < to_read
      then alert_loop to_string to_read (tl it) (Suc i) ((dat @ to_string (hd it)) @ [CHR 0x0A])
      else (it, i, dat))"
  by pat_completeness auto
termination
  by (relation "measure (\<lambda>(to_string, to_read, it, i, dat). to_read - i)") auto

definition adhoc_more ::
  "('t, 'a, 'rs, 's, 'rm, 'm, 'rb, 'b, 'd) environment \<Rightarrow> ('t, 'a) handler
   \<Rightarrow> rpc_iterator_handle \<Rightarrow> rpc_iterator_id
   \<Rightarrow> (rpc_exception + rpc_iterator_handle) \<times> ('t, 'a) handler" where
  "adhoc_more env h ret it_id =
     (let ret1 = ret\<lparr>desc := (desc ret)\<lparr>data_type := RPC_RECORD, handler_id := handler_id_m h,
                                        id_desc := it_id, type_desc := RPC_ADHOC\<rparr>\<rparr>
      in case adhoc_m h it_id of
           None \<Rightarrow> (Inl (rpc_invalid_operation ''No such iterator''), h)
         | Some res \<Rightarrow>
             (case cur_table_m h of
                None \<Rightarrow> (Inl null_table, h)
              | Some t \<Rightarrow>
                  (let to_read = ITERATOR_BATCH_SIZE env;
                       (res1, i, dat) = record_loop to_read res 0 (data ret1)
                   in (Inr (ret1\<lparr>data := dat, num_entries := i, has_more := (res1 \<noteq> [])\<rparr>),
                       h\<lparr>adhoc_m := (adhoc_m h)(it_id \<mapsto> res1)\<rparr>))))"

definition predef_more ::
  "('t, 'a, 'rs, 's, 'rm, 'm, 'rb, 'b, 'd) environment \<Rightarrow> ('t, 'a) handler
   \<Rightarrow> rpc_iterator_handle \<Rightarrow> rpc_iterator_id
   \<Rightarrow> (rpc_exception + rpc_iterator_handle) \<times> ('t, 'a) handler" where
  "predef_more env h ret it_id =
     (let ret1 = ret\<lparr>desc := (desc ret)\<lparr>data_type := RPC_RECORD, handler_id := handler_id_m h,
                                        id_desc := it_id, type_desc := RPC_PREDEF\<rparr>\<rparr>
      in case predef_m h it_id of
           None \<Rightarrow> (Inl (rpc_invalid_operation ''No such iterator''), h)
         | Some res \<Rightarrow>
             (case cur_table_m h of
                None \<Rightarrow> (Inl null_table, h)
              | Some t \<Rightarrow>
                  (let to_read = ITERATOR_BATCH_SIZE env;
                       (res1, i, dat) = record_loop to_read res 0 (data ret1)
                   in (Inr (ret1\<lparr>data := dat, num_entries := i, has_more := (res1 \<noteq> [])\<rparr>),
                       h\<lparr>predef_m := (predef_m h)(it_id \<mapsto> res1)\<rparr>))))"

definition combined_more ::
  "('t, 'a, 'rs, 's, 'rm, 'm, 'rb, 'b, 'd) environment \<Rightarrow> ('t, 'a) handler
   \<Rightarrow> rpc_iterator_handle \<Rightarrow> rpc_iterator_id
   \<Rightarrow> (rpc_exception + rpc_iterator_handle) \<times> ('t, 'a) handler" where
  "combined_more env h ret it_id =
     (let ret1 = ret\<lparr>desc := (desc ret)\<lparr>data_type := RPC_RECORD, handler_id := handler_id_m h,
                                        id_desc := it_id, type_desc := RPC_COMBINED\<rparr>\<rparr>
      in case combined_m h it_id of
           None \<Rightarrow> (Inl (rpc_invalid_operation ''No such iterator''), h)
         | Some res \<Rightarrow>
             (case cur_table_m h of
                None \<Rightarrow> (Inl null_table, h)
              | Some t \<Rightarrow>
                  (let to_read = ITERATOR_BATCH_SIZE env;
                       (res1, i, dat) = record_loop to_read res 0 (data ret1)
                   in (Inr (ret1\<lparr>data := dat, num_entries := i, has_more := (res1 \<noteq> [])\<rparr>),
                       h\<lparr>combined_m := (combined_m h)(it_id \<mapsto> res1)\<rparr>))))"

definition alerts_more ::
  "('t, 'a, 'rs, 's, 'rm, 'm, 'rb, 'b, 'd) environment \<Rightarrow> ('t, 'a) handler
   \<Rightarrow> rpc_iterator_handle \<Rightarrow> rpc_iterator_id
   \<Rightarrow> (rpc_exception + rpc_iterator_handle) \<times> ('t, 'a) handler" where
  "alerts_more env h ret it_id =
     (let ret1 = ret\<lparr>desc := (desc ret)\<lparr>data_type := RPC_ALERT, handler_id := handler_id_m h,
                                        id_desc := it_id, type_desc := RPC_ALERTS\<rparr>\<rparr>
      in case alerts_m h it_id of
           None \<Rightarrow> (Inl (rpc_invalid_operation ''No such iterator''), h)
         | Some res \<Rightarrow>
             (let to_read = ITERATOR_BATCH_SIZE env;
                  (it, i, dat) = alert_loop (alert_to_string env) to_read res 0 (data ret1)
              in (Inr (ret1\<lparr>data := dat, num_entries := i, has_more := (it \<noteq> [])\<rparr>),
                  h\<lparr>alerts_m := (alerts_m h)(it_id \<mapsto> it)\<rparr>)))"

definition adhoc_filter ::
  "('t, 'a, 'rs, 's, 'rm, 'm, 'rb, 'b, 'd) environment \<Rightarrow> ('t, 'a) handler
   \<Rightarrow> rpc_iterator_handle \<Rightarrow> string
   \<Rightarrow> (rpc_exception + rpc_iterator_handle) \<times> ('t, 'a) handler" where
  "adhoc_filter env h ret filter_expr =
     (let (it_id, h1) = new_iterator_id env h
      in case cur_table_m h1 of
           None \<Rightarrow> (Inl null_table, h1)
         | Some t \<Rightarrow>
             (case tbl_execute_filter env t filter_expr of
                Inl ex \<Rightarrow> (Inl (catch_parse ex), h1)
              | Inr res \<Rightarrow>
                  (let (m, success) = map_insert (adhoc_m h1) it_id res;
                       h2 = h1\<lparr>adhoc_m := m\<rparr>
                   in if \<not> success
                      then (Inl (rpc_invalid_operation ''Duplicate rpc_iterator_id assigned''), h2)
                      else adhoc_more env h2 ret it_id)))"

definition predef_filter ::
  "('t, 'a, 'rs, 's, 'rm, 'm, 'rb, 'b, 'd) environment \<Rightarrow> ('t, 'a) handler
   \<Rightarrow> rpc_iterator_handle \<Rightarrow> string \<Rightarrow> int \<Rightarrow> int
   \<Rightarrow> (rpc_exception + rpc_iterator_handle) \<times> ('t, 'a) handler" where
  "predef_filter env h ret filter_name begin_ms end_ms =
     (let (it_id, h1) = new_iterator_id env h
      in case cur_table_m h1 of
           None \<Rightarrow> (Inl null_table, h1)
         | Some t \<Rightarrow>
             (case tbl_query_filter env t filter_name begin_ms end_ms of
                Inl ex \<Rightarrow> (Inl (uncaught ex), h1)
              | Inr res \<Rightarrow>
                  (let (m, success) = map_insert (predef_m h1) it_id res;
                       h2 = h1\<lparr>predef_m := m\<rparr>
                   in if \<not> success
                      then (Inl (rpc_invalid_operation ''Duplicate rpc_iterator_id assigned''), h2)
                      else predef_more env h2 ret it_id)))"

definition combined_filter ::
  "('t, 'a, 'rs, 's, 'rm, 'm, 'rb, 'b, 'd) environment \<Rightarrow> ('t, 'a) handler
   \<Rightarrow> rpc_iterator_handle \<Rightarrow> string \<Rightarrow> string \<Rightarrow> int \<Rightarrow> int
   \<Rightarrow> (rpc_exception + rpc_iterator_handle) \<times> ('t, 'a) handler" where
  "combined_filter env h ret filter_name filter_expr begin_ms end_ms =
     (let (it_id, h1) = new_iterator_id env h
      in case cur_table_m h1 of
           None \<Rightarrow> (Inl null_table, h1)
         | Some t \<Rightarrow>
             (case tbl_query_filter_expr env t filter_name filter_expr begin_ms end_ms of
                Inl ex \<Rightarrow> (Inl (catch_parse ex), h1)
              | Inr res \<Rightarrow>
                  (let (m, success) = map_insert (combined_m h1) it_id res;
                       h2 = h1\<lparr>combined_m := m\<rparr>
                   in if \<not> success
                      then (Inl (rpc_invalid_operation ''Duplicate rpc_iterator_id assigned''), h2)
                      else combined_more env h2 ret it_id)))"

definition alerts_by_time ::
  "('t, 'a, 'rs, 's, 'rm, 'm, 'rb, 'b, 'd) environment \<Rightarrow> ('t, 'a) handler
   \<Rightarrow> rpc_iterator_handle \<Rightarrow> int \<Rightarrow> int
   \<Rightarrow> (rpc_exception + rpc_iterator_handle) \<times> ('t, 'a) handler" where
  "alerts_by_time env h ret begin_ms end_ms =
     (let (it_id, h1) = new_iterator_id env h
      in case cur_table_m h1 of
           None \<Rightarrow> (Inl null_table, h1)
         | Some t \<Rightarrow>
             (case tbl_get_alerts env t begin_ms end_ms of
                Inl ex \<Rightarrow> (Inl (uncaught ex), h1)
              | Inr alerts \<Rightarrow>
                  (let (m, success) = map_insert (alerts_m h1) it_id alerts;
                       h2 = h1\<lparr>alerts_m := m\<rparr>
                   in if \<not> success
                      then (Inl (rpc_invalid_operation ''Duplicate rpc_iterator_id assigned''), h2)
                      else alerts_more env h2 ret it_id)))"

definition get_more ::
  "('t, 'a, 'rs, 's, 'rm, 'm, 'rb, 'b, 'd) environment \<Rightarrow> ('t, 'a) handler
   \<Rightarrow> rpc_iterator_handle \<Rightarrow> rpc_iterator_descriptor
   \<Rightarrow> (rpc_exception + rpc_iterator_handle) \<times> ('t, 'a) handler" where
  "get_more env h ret d =
     (if handler_id d \<noteq> handler_id_m h
      then (Inl (rpc_invalid_operation ''handler_id mismatch''), h)
      else (case type_desc d of
              RPC_ADHOC \<Rightarrow> adhoc_more env h ret (id_desc d)
            | RPC_PREDEF \<Rightarrow> predef_more env h ret (id_desc d)
            | RPC_COMBINED \<Rightarrow> combined_more env h ret (id_desc d)
            | RPC_ALERTS \<Rightarrow> alerts_more env h ret (id_desc d)))"

section \<open>Sessions and clients\<close>

text \<open>
  The methods of the service interface as calls, and the handler a call leaves behind. A
  session is a list of calls, each with the environment it runs in, applied to the handler
  that the constructor built.
\<close>

datatype ('rs, 'rm, 'rb, 'd) call =
  Register_handler
| Deregister_handler
| Create_table string 'rs 'rm
| Set_current_table string
| Add_index string 'd
| Remove_index string
| Add_filter string string
| Remove_filter string
| Add_trigger string string string
| Remove_trigger string
| Append string
| Append_batch 'rb
| Read int int
| Adhoc_filter rpc_iterator_handle string
| Predef_filter rpc_iterator_handle string int int
| Combined_filter rpc_iterator_handle string string int int
| Alerts_by_time rpc_iterator_handle int int
| Get_more rpc_iterator_handle rpc_iterator_descriptor
| Num_records

fun step ::
  "('t, 'a, 'rs, 's, 'rm, 'm, 'rb, 'b, 'd) environment \<Rightarrow> ('rs, 'rm, 'rb, 'd) call
   \<Rightarrow> ('t, 'a) handler \<Rightarrow> ('t, 'a) handler" where
  "step env Register_handler h = snd (register_handler env h)"
| "step env Deregister_handler h = snd (deregister_handler env h)"
| "step env (Create_table name schema mode) h = snd (create_table env h name schema mode)"
| "step env (Set_current_table name) h = snd (set_current_table env h name)"
| "step env (Add_index field bucket) h = snd (add_index env h field bucket)"
| "step env (Remove_index field) h = snd (remove_index env h field)"
| "step env (Add_filter name expr) h = snd (add_filter env h name expr)"
| "step env (Remove_filter name) h = snd (remove_filter env h name)"
| "step env (Add_trigger name fname expr) h = snd (add_trigger env h name fname expr)"
| "step env (Remove_trigger name) h = snd (remove_trigger env h name)"
| "step env (Append dat) h = snd (append_rpc env h dat)"
| "step env (Append_batch batch) h = snd (append_batch env h batch)"
| "step env (Read offset nrecords) h = snd (read_rpc env h offset nrecords)"
| "step env (Adhoc_filter ret expr) h = snd (adhoc_filter env h ret expr)"
| "step env (Predef_filter ret name b e) h = snd (predef_filter env h ret name b e)"
| "step env (Combined_filter ret name expr b e) h = snd (combined_filter env h ret name expr b e)"
| "step env (Alerts_by_time ret b e) h = snd (alerts_by_time env h ret b e)"
| "step env (Get_more ret d) h = snd (get_more env h ret d)"
| "step env Num_records h = snd (num_records env h)"

text \<open>The kind of cursor a call opens, if it is one of the four cursor-open calls.\<close>

fun opens :: "('rs, 'rm, 'rb, 'd) call \<Rightarrow> rpc_iterator_type option" where
  "opens (Adhoc_filter ret expr) = Some RPC_ADHOC"
| "opens (Predef_filter ret name b e) = Some RPC_PREDEF"
| "opens (Combined_filter ret name expr b e) = Some RPC_COMBINED"
| "opens (Alerts_by_time ret b e) = Some RPC_ALERTS"
| "opens _ = None"

fun run ::
  "(('t, 'a, 'rs, 's, 'rm, 'm, 'rb, 'b, 'd) environment \<times> ('rs, 'rm, 'rb, 'd) call) list
   \<Rightarrow> ('t, 'a) handler \<Rightarrow> ('t, 'a) handler" where
  "run [] h = h"
| "run ((env, c) # cs) h = run cs (step env c h)"

text \<open>The number of cursor-open calls of a session.\<close>

definition open_calls ::
  "(('t, 'a, 'rs, 's, 'rm, 'm, 'rb, 'b, 'd) environment \<times> ('rs, 'rm, 'rb, 'd) call) list
   \<Rightarrow> nat" where
  "open_calls tr = length (filter (\<lambda>(env, c). opens c \<noteq> None) tr)"

text \<open>What \<open>alerts_more\<close> appends for one alert: its text and a newline.\<close>

definition alert_line :: "('a \<Rightarrow> string) \<Rightarrow> 'a \<Rightarrow> string" where
  "alert_line to_string a = to_string a @ [CHR 0x0A]"

text \<open>
  What the cursor \<open>i\<close> of kind \<open>k\<close> still has to give, as the byte strings it will
  append to \<open>data\<close>: the records of a record stream, the lines of an alert range.
  \<open>None\<close> when the map of kind \<open>k\<close> has no cursor \<open>i\<close>.
\<close>

definition cursor_items ::
  "('t, 'a, 'rs, 's, 'rm, 'm, 'rb, 'b, 'd) environment \<Rightarrow> ('t, 'a) handler
   \<Rightarrow> rpc_iterator_type \<Rightarrow> rpc_iterator_id \<Rightarrow> string list option" where
  "cursor_items env h k i =
     (case k of
        RPC_ADHOC \<Rightarrow> adhoc_m h i
      | RPC_PREDEF \<Rightarrow> predef_m h i
      | RPC_COMBINED \<Rightarrow> combined_m h i
      | RPC_ALERTS \<Rightarrow> map_option (map (alert_line (alert_to_string env))) (alerts_m h i))"

text \<open>Whether the map of kind \<open>k\<close> holds a cursor \<open>i\<close>.\<close>

definition has_cursor :: "('t, 'a) handler \<Rightarrow> rpc_iterator_type \<Rightarrow> rpc_iterator_id \<Rightarrow> bool" where
  "has_cursor h k i =
     (case k of
        RPC_ADHOC \<Rightarrow> adhoc_m h i \<noteq> None
      | RPC_PREDEF \<Rightarrow> predef_m h i \<noteq> None
      | RPC_COMBINED \<Rightarrow> combined_m h i \<noteq> None
      | RPC_ALERTS \<Rightarrow> alerts_m h i \<noteq> None)"



section \<open>The record store\<close>

text \<open>
  The append path of a table (\<open>dialog_table::append\<close>, \<open>read\<close> and
  \<open>num_records\<close>) is not among the sources; only its test
  \<open>test_append_and_get\<close> is. The definitions of this section follow the record store
  of the specification instead.
\<close>

text \<open>
  Modelled from the spec: the state behind \<open>dialog_table::append\<close>, which is missing.
  An append-only arena of bytes for records of one fixed size; the tail is the length of
  the arena.
\<close>

record record_store =
  record_size :: nat
  arena :: string

text \<open>Modelled from the spec: the store of a table just created (missing), with no record.\<close>

definition new_record_store :: "nat \<Rightarrow> record_store" where
  "new_record_store n = \<lparr>record_size = n, arena = []\<rparr>"

text \<open>Modelled from the spec: the tail offset of the store (missing), the position of the
  next record.\<close>

definition rs_tail :: "record_store \<Rightarrow> nat" where
  "rs_tail st = length (arena st)"

text \<open>
  Modelled from the spec: \<open>dialog_table::append\<close> (missing). It takes the
  \<open>record_size\<close> bytes of a record, copies them at the tail, which moves past them, and
  returns the tail it found as the offset.
\<close>

definition rs_append :: "record_store \<Rightarrow> string \<Rightarrow> nat \<times> record_store" where
  "rs_append st r = (rs_tail st, st\<lparr>arena := arena st @ r\<rparr>)"

text \<open>
  Modelled from the spec: \<open>dialog_table::read\<close> (missing). The record at an offset;
  nothing past the tail is given, and the specification leaves a read past the tail
  undefined: \<open>None\<close>.
\<close>

definition rs_read :: "record_store \<Rightarrow> nat \<Rightarrow> string option" where
  "rs_read st offset =
     (if offset + record_size st \<le> rs_tail st
      then Some (take (record_size st) (drop offset (arena st)))
      else None)"

text \<open>Modelled from the spec: \<open>dialog_table::num_records\<close> (missing), the tail divided by
  the record size.\<close>

definition rs_num_records :: "record_store \<Rightarrow> nat" where
  "rs_num_records st = rs_tail st div record_size st"

text \<open>Records appended one after the other, as the test does, with the offsets returned, in
  order.\<close>

fun rs_append_all :: "record_store \<Rightarrow> string list \<Rightarrow> nat list \<times> record_store" where
  "rs_append_all st [] = ([], st)"
| "rs_append_all st (r # rs) =
     (let (offset, st1) = rs_append st r;
          (offsets, st2) = rs_append_all st1 rs
      in (offset # offsets, st2))"

text \<open>
  \<open>generate_bytes\<close> of the test class: \<open>len\<close> bytes, each \<open>val % 256\<close>.
\<close>

definition generate_bytes :: "nat \<Rightarrow> nat \<Rightarrow> string" where
  "generate_bytes len val = replicate len (char_of (val mod 256))"

text \<open>
  \<open>test_append_and_get\<close> of the test class, run on the record store: it appends
  \<open>MAX_RECORDS\<close> records, record \<open>i\<close> generated from \<open>i\<close>, and keeps the
  offsets; then it reads at each offset and compares \<open>DATA_SIZE\<close> bytes with
  \<open>i % 256\<close>; at the end it compares \<open>MAX_RECORDS\<close> with \<open>num_records\<close>. It
  is true when every assertion holds. A read that gives nothing, or fewer bytes than are
  compared, fails it.
\<close>

definition test_append_and_get :: "record_store \<Rightarrow> nat \<Rightarrow> nat \<Rightarrow> bool" where
  "test_append_and_get dtable max_records data_size =
     (let (offsets, dtable1) =
            rs_append_all dtable (map (generate_bytes data_size) [0..<max_records])
      in list_all
           (\<lambda>i. case rs_read dtable1 (offsets ! i) of
                   None \<Rightarrow> False
                 | Some dat \<Rightarrow>
                     list_all (\<lambda>j. j < length dat \<and> dat ! j = char_of (i mod 256))
                       [0..<data_size])
           [0..<max_records]
         \<and> max_records = rs_num_records dtable1)"

section \<open>The table registry\<close>

text \<open>
  \<open>dialog_store\<close> (\<open>add_table\<close>, \<open>get_table_id\<close>, \<open>remove_table\<close>) is not
  among the sources; only its tests \<open>AddTableTest\<close> and \<open>RemoveTableTest\<close> are. The
  definitions of this section follow the store of the specification instead.
\<close>

text \<open>Modelled from the spec: the table of \<open>dialog_store\<close> (missing), as far as the
  registry looks at it: its name, its id and its schema.\<close>

record 's table =
  table_name :: string
  table_id :: int
  table_schema :: 's

text \<open>Modelled from the spec: the state of \<open>dialog_store\<close> (missing). A map from table
  name to table, a map from table id to table, and the next id to assign.\<close>

record 's dialog_store =
  tables :: "string \<rightharpoonup> 's table"
  tables_by_id :: "int \<rightharpoonup> 's table"
  next_id :: int

text \<open>Modelled from the spec: the management error of \<open>dialog_store\<close> (missing), with its
  message.\<close>

datatype management_error = ManagementError string

text \<open>Modelled from the spec: the \<open>dialog_store\<close> just constructed (missing). No table;
  ids are assigned from 0.\<close>

definition empty_store :: "'s dialog_store" where
  "empty_store = \<lparr>tables = Map.empty, tables_by_id = Map.empty, next_id = 0\<rparr>"

text \<open>
  Modelled from the spec: \<open>dialog_store::add_table\<close> (missing). It fails with a
  management error when the name exists (\<open>None\<close>: the specification gives no message),
  and else registers the table under the next id and returns the id.
\<close>

definition add_table :: "'s dialog_store \<Rightarrow> string \<Rightarrow> 's \<Rightarrow> int option \<times> 's dialog_store" where
  "add_table st name schema =
     (case tables st name of
        Some _ \<Rightarrow> (None, st)
      | None \<Rightarrow>
          (let i = next_id st;
               tb = \<lparr>table_name = name, table_id = i, table_schema = schema\<rparr>
           in (Some i, st\<lparr>tables := (tables st)(name \<mapsto> tb),
                            tables_by_id := (tables_by_id st)(i \<mapsto> tb),
                            next_id := i + 1\<rparr>)))"

text \<open>Modelled from the spec: \<open>dialog_store::get_table_id\<close> (missing).\<close>

definition get_table_id :: "'s dialog_store \<Rightarrow> string \<Rightarrow> int option" where
  "get_table_id st name = map_option table_id (tables st name)"

text \<open>
  Modelled from the spec: \<open>dialog_store::remove_table\<close> by id (missing). It returns the
  id, and the table is gone from both maps, or it returns -1.
\<close>

definition remove_table :: "'s dialog_store \<Rightarrow> int \<Rightarrow> int \<times> 's dialog_store" where
  "remove_table st i =
     (case tables_by_id st i of
        None \<Rightarrow> (- 1, st)
      | Some tb \<Rightarrow>
          (i, st\<lparr>tables := (tables st)(table_name tb := None),
                  tables_by_id := (tables_by_id st)(i := None)\<rparr>))"

text \<open>
  Modelled from the spec: \<open>dialog_store::remove_table\<close> by name (missing). It fails
  with the management error \<open>No such table <name>\<close> when no table has the name, and else
  removes the table of that name by its id.
\<close>

definition remove_table_by_name ::
  "'s dialog_store \<Rightarrow> string \<Rightarrow> (management_error + int) \<times> 's dialog_store" where
  "remove_table_by_name st name =
     (case tables st name of
        None \<Rightarrow> (Inl (ManagementError (''No such table '' @ name)), st)
      | Some tb \<Rightarrow> (case remove_table st (table_id tb) of (r, st1) \<Rightarrow> (Inr r, st1)))"

text \<open>The calls on a registry, the registry a call leaves behind, and a sequence of calls.\<close>

datatype 's store_call =
  Add_table string 's
| Remove_table int
| Remove_table_by_name string

fun store_step :: "'s store_call \<Rightarrow> 's dialog_store \<Rightarrow> 's dialog_store" where
  "store_step (Add_table name schema) st = snd (add_table st name schema)"
| "store_step (Remove_table i) st = snd (remove_table st i)"
| "store_step (Remove_table_by_name name) st = snd (remove_table_by_name st name)"

fun store_run :: "'s store_call list \<Rightarrow> 's dialog_store \<Rightarrow> 's dialog_store" where
  "store_run [] st = st"
| "store_run (c # cs) st = store_run cs (store_step c st)"

text \<open>
  The tests \<open>AddTableTest\<close> and \<open>RemoveTableTest\<close> of the test class, run on the
  registry with the schema \<open>s\<close>: true when every assertion holds. An exception that
  the test does not catch fails it; in \<open>RemoveTableTest\<close> the removal by name is in a
  \<open>try\<close> block whose handler compares the message, so the test also passes when
  nothing is thrown there.
\<close>

definition AddTableTest :: "'s \<Rightarrow> bool" where
  "AddTableTest s =
     (case add_table empty_store ''my_table'' s of
        (None, store1) \<Rightarrow> False
      | (Some i, store1) \<Rightarrow> Some i = get_table_id store1 ''my_table'')"

definition RemoveTableTest :: "'s \<Rightarrow> bool" where
  "RemoveTableTest s =
     (case add_table empty_store ''my_table'' s of
        (None, store1) \<Rightarrow> False
      | (Some i, store1) \<Rightarrow>
          (case remove_table store1 i of
             (r, store2) \<Rightarrow>
               - 1 \<noteq> r
               \<and> (case remove_table_by_name store2 ''my_table'' of
                     (Inl (ManagementError msg), store3) \<Rightarrow> msg = ''No such table my_table''
                   | (Inr r2, store3) \<Rightarrow> True)))"

section \<open>Pages\<close>

text \<open>The page that a \<open>_more\<close> routine builds from the items a cursor still has.\<close>

definition page_of ::
  "rpc_iterator_descriptor \<Rightarrow> string \<Rightarrow> nat \<Rightarrow> string list \<Rightarrow> rpc_iterator_handle" where
  "page_of d dat b items =
     \<lparr>desc = d, data = dat @ concat (take b items), num_entries = min b (length items),
      has_more = (drop b items \<noteq> [])\<rparr>"


section \<open>An example session\<close>

text \<open>
  One table, \<open>my_table\<close>, whose ad-hoc filter gives three records and whose alert range
  gives three alerts, a batch size of 2, iterator ids of 64 bits, and the expression
  \<open>e >\<close> that does not parse.
\<close>

definition example_env ::
  "(unit, string, unit, unit, unit, unit, unit, unit, unit) environment" where
  "example_env =
     \<lparr>register_thread = 7, deregister_thread = 7,
      convert_schema = (\<lambda>_. ()), convert_schema_to_rpc = (\<lambda>_. ()),
      convert_mode = (\<lambda>_. ()), convert_batch = (\<lambda>_. ()),
      store_add_table = (\<lambda>name schema mode. Inr 0),
      store_get_table =
        (\<lambda>name. if name = ''my_table'' then Inr ()
                 else Inl (management_exception (''No such table '' @ name))),
      tbl_schema_columns = (\<lambda>t. ()),
      tbl_add_index = (\<lambda>t field bucket. Inr ()),
      tbl_remove_index = (\<lambda>t field. Inr ()),
      tbl_add_filter =
        (\<lambda>t name expr. if expr = ''e >'' then Inl (parse_exception ''unexpected end'')
                        else Inr ()),
      tbl_remove_filter = (\<lambda>t name. Inr ()),
      tbl_add_trigger =
        (\<lambda>t name fname expr. if expr = ''e >'' then Inl (parse_exception ''unexpected end'')
                              else Inr ()),
      tbl_remove_trigger = (\<lambda>t name. Inr ()),
      tbl_append = (\<lambda>t dat. 0),
      tbl_append_batch = (\<lambda>t batch. 0),
      tbl_read = (\<lambda>t offset n. []),
      tbl_record_size = (\<lambda>t. 2),
      tbl_execute_filter =
        (\<lambda>t expr. if expr = ''e >'' then Inl (parse_exception ''unexpected end'')
                   else Inr [''r0'', ''r1'', ''r2'']),
      tbl_query_filter = (\<lambda>t name b e. Inr [''r0'', ''r1'', ''r2'', ''r3'', ''r4'']),
      tbl_query_filter_expr =
        (\<lambda>t name expr b e. if expr = ''e >'' then Inl (parse_exception ''unexpected end'')
                            else Inr [''r1'']),
      tbl_get_alerts = (\<lambda>t b e. Inr [''hi|5|3'', ''hi|6|4'', ''hi|9|3'']),
      tbl_num_records = (\<lambda>t. 0),
      alert_to_string = (\<lambda>a. a),
      ITERATOR_BATCH_SIZE = 2,
      iterator_id_bits = 64,
      string_max_size = 2 ^ 62\<rparr>"

text \<open>The handler after \<open>register_handler\<close> and \<open>set_current_table\<close>.\<close>

definition example_handler :: "(unit, string) handler" where
  "example_handler =
     \<lparr>handler_id_m = 7, cur_table_m = Some (), iterator_id_m = 0,
      adhoc_m = Map.empty, predef_m = Map.empty, combined_m = Map.empty,
      alerts_m = Map.empty\<rparr>"

text \<open>The same handler after an ad-hoc cursor was opened and gave its first page.\<close>

definition example_open_handler :: "(unit, string) handler" where
  "example_open_handler =
     \<lparr>handler_id_m = 7, cur_table_m = Some (), iterator_id_m = 1,
      adhoc_m = [0 \<mapsto> [''r2'']], predef_m = Map.empty, combined_m = Map.empty,
      alerts_m = Map.empty\<rparr>"

text \<open>A handler whose counter stands at an id that the maps already hold.\<close>

definition clashing_handler :: "(unit, string) handler" where
  "clashing_handler =
     \<lparr>handler_id_m = 7, cur_table_m = Some (), iterator_id_m = 0,
      adhoc_m = [0 \<mapsto> []], predef_m = [0 \<mapsto> []], combined_m = [0 \<mapsto> []],
      alerts_m = [0 \<mapsto> []]\<rparr>"

text \<open>A \<open>_return\<close> as the caller hands it in: no data yet.\<close>

definition fresh_return :: rpc_iterator_handle where
  "fresh_return =
     \<lparr>desc = \<lparr>data_type = RPC_RECORD, handler_id = 0, id_desc = 0, type_desc = RPC_ADHOC\<rparr>,
      data = [], num_entries = 0, has_more = False\<rparr>"

definition descriptor ::
  "rpc_data_type \<Rightarrow> rpc_handler_id \<Rightarrow> rpc_iterator_id \<Rightarrow> rpc_iterator_type
   \<Rightarrow> rpc_iterator_descriptor" where
  "descriptor dt hid i k = \<lparr>data_type = dt, handler_id = hid, id_desc = i, type_desc = k\<rparr>"

text \<open>A session on the example table, the handler it ends in, a continuation of it and
  the handler that ends in.\<close>

definition example_trace ::
  "((unit, string, unit, unit, unit, unit, unit, unit, unit) environment
    \<times> (unit, unit, unit, unit) call) list" where
  "example_trace =
     [(example_env, Register_handler),
      (example_env, Set_current_table ''my_table''),
      (example_env, Adhoc_filter fresh_return ''e > 0''),
      (example_env, Adhoc_filter fresh_return ''e >''),
      (example_env, Alerts_by_time fresh_return 0 9),
      (example_env, Get_more fresh_return (descriptor RPC_ALERT 7 2 RPC_ALERTS))]"

definition example_trace_end :: "(unit, string) handler" where
  "example_trace_end =
     \<lparr>handler_id_m = 7, cur_table_m = Some (), iterator_id_m = 3,
      adhoc_m = [0 \<mapsto> [''r2'']], predef_m = Map.empty, combined_m = Map.empty,
      alerts_m = [2 \<mapsto> []]\<rparr>"



text \<open>The example with iterator ids of 32 bits.\<close>

definition example_env32 ::
  "(unit, string, unit, unit, unit, unit, unit, unit, unit) environment" where
  "example_env32 = example_env\<lparr>iterator_id_bits := 32\<rparr>"

text \<open>A session that sets the current table and then opens \<open>n + 1\<close> alerts cursors.\<close>

definition long_session ::
  "('t, 'a, 'rs, 's, 'rm, 'm, 'rb, 'b, 'd) environment \<Rightarrow> nat
   \<Rightarrow> (('t, 'a, 'rs, 's, 'rm, 'm, 'rb, 'b, 'd) environment \<times> ('rs, 'rm, 'rb, 'd) call) list"
  where
  "long_session env n =
     (env, Set_current_table ''my_table'') # (env, Alerts_by_time fresh_return 0 9)
       # replicate n (env, Alerts_by_time fresh_return 0 9)"

text \<open>The registry after \<open>add_table\<close> of \<open>my_table\<close>, and after its removal by id.\<close>

definition example_store :: "unit dialog_store" where
  "example_store =
     \<lparr>tables = [''my_table'' \<mapsto> \<lparr>table_name = ''my_table'', table_id = 0, table_schema = ()\<rparr>],
      tables_by_id = [0 \<mapsto> \<lparr>table_name = ''my_table'', table_id = 0, table_schema = ()\<rparr>],
      next_id = 1\<rparr>"

definition example_store_removed :: "unit dialog_store" where
  "example_store_removed = \<lparr>tables = Map.empty, tables_by_id = Map.empty, next_id = 1\<rparr>"

section \<open>The page loops in closed form\<close>

declare record_loop.simps [simp del] alert_loop.simps [simp del]

lemma record_loop_eq:
  "record_loop n res i dat =
     (drop (n - i) res, i + min (n - i) (length res), dat @ concat (take (n - i) res))"
proof (induction n res i dat rule: record_loop.induct)
  case (1 to_read res i dat)
  show ?case
  proof (cases "res \<noteq> [] \<and> i < to_read")
    case True
    then obtain x xs where res: "res = x # xs" by (cases res) auto
    from True have d: "to_read - i = Suc (to_read - Suc i)" by arith
    have "record_loop to_read res i dat = record_loop to_read (tl res) (Suc i) (dat @ hd res)"
      using True by (subst record_loop.simps) simp
    also have "\<dots> = (drop (to_read - Suc i) (tl res),
        Suc i + min (to_read - Suc i) (length (tl res)),
        (dat @ hd res) @ concat (take (to_read - Suc i) (tl res)))"
      using "1.IH" True by simp
    finally show ?thesis by (simp add: res d)
  next
    case False
    then show ?thesis by (subst record_loop.simps) auto
  qed
qed

lemma alert_loop_eq:
  "alert_loop f n it i dat =
     (drop (n - i) it, i + min (n - i) (length it),
      dat @ concat (map (alert_line f) (take (n - i) it)))"
proof (induction f n it i dat rule: alert_loop.induct)
  case (1 f to_read it i dat)
  show ?case
  proof (cases "it \<noteq> [] \<and> i < to_read")
    case True
    then obtain x xs where it: "it = x # xs" by (cases it) auto
    from True have d: "to_read - i = Suc (to_read - Suc i)" by arith
    have "alert_loop f to_read it i dat =
            alert_loop f to_read (tl it) (Suc i) ((dat @ f (hd it)) @ [CHR 0x0A])"
      using True by (subst alert_loop.simps) simp
    also have "\<dots> = (drop (to_read - Suc i) (tl it),
        Suc i + min (to_read - Suc i) (length (tl it)),
        ((dat @ f (hd it)) @ [CHR 0x0A]) @
          concat (map (alert_line f) (take (to_read - Suc i) (tl it))))"
      using "1.IH" True by simp
    finally show ?thesis by (simp add: it d alert_line_def [abs_def])
  next
    case False
    then show ?thesis by (subst alert_loop.simps) auto
  qed
qed

section \<open>One page\<close>




lemma alerts_more_page:
  assumes "alerts_m h i = Some res"
  shows "alerts_more env h ret i =
    (Inr (page_of (descriptor RPC_ALERT (handler_id_m h) i RPC_ALERTS) (data ret)
            (ITERATOR_BATCH_SIZE env) (map (alert_line (alert_to_string env)) res)),
     h\<lparr>alerts_m := (alerts_m h)(i \<mapsto> drop (ITERATOR_BATCH_SIZE env) res)\<rparr>)"
  using assms
  by (cases ret, cases "desc ret")
    (simp add: alerts_more_def alert_loop_eq Let_def page_of_def descriptor_def take_map drop_map)


section \<open>The client loop\<close>





lemma alerts_by_time_opened:
  assumes "cur_table_m h = Some t" and "tbl_get_alerts env t b e = Inr res"
    and "alerts_m h (iterator_id_m h) = None"
  shows "alerts_by_time env h ret b e =
    alerts_more env (h\<lparr>iterator_id_m := increment_id (iterator_id_bits env) (iterator_id_m h),
                      alerts_m := (alerts_m h)(iterator_id_m h \<mapsto> res)\<rparr>) ret (iterator_id_m h)"
  using assms by (simp add: alerts_by_time_def new_iterator_id_def map_insert_def)






section \<open>The example, field by field\<close>

lemma example_env_simps [simp]:
  "ITERATOR_BATCH_SIZE example_env = 2"
  "iterator_id_bits example_env = 64"
  "alert_to_string example_env a = a"
  "register_thread example_env = 7"
  "store_get_table example_env name =
     (if name = ''my_table'' then Inr ()
      else Inl (management_exception (''No such table '' @ name)))"
  "tbl_schema_columns example_env t = ()"
  "convert_schema_to_rpc example_env s = ()"
  "tbl_add_filter example_env t name expr =
     (if expr = ''e >'' then Inl (parse_exception ''unexpected end'') else Inr ())"
  "tbl_add_trigger example_env t name fname expr =
     (if expr = ''e >'' then Inl (parse_exception ''unexpected end'') else Inr ())"
  "tbl_execute_filter example_env t expr =
     (if expr = ''e >'' then Inl (parse_exception ''unexpected end'')
      else Inr [''r0'', ''r1'', ''r2''])"
  "tbl_query_filter example_env t name b e = Inr [''r0'', ''r1'', ''r2'', ''r3'', ''r4'']"
  "tbl_query_filter_expr example_env t name expr b e =
     (if expr = ''e >'' then Inl (parse_exception ''unexpected end'') else Inr [''r1''])"
  "tbl_get_alerts example_env t b e = Inr [''hi|5|3'', ''hi|6|4'', ''hi|9|3'']"
  by (simp_all add: example_env_def)

lemma example_open_handler_simps [simp]:
  "handler_id_m example_open_handler = 7"
  "cur_table_m example_open_handler = Some ()"
  "iterator_id_m example_open_handler = 1"
  "adhoc_m example_open_handler = [0 \<mapsto> [''r2'']]"
  "predef_m example_open_handler = Map.empty"
  "combined_m example_open_handler = Map.empty"
  "alerts_m example_open_handler = Map.empty"
  by (simp_all add: example_open_handler_def)

lemma example_handler_simps [simp]:
  "handler_id_m example_handler = 7"
  "cur_table_m example_handler = Some ()"
  "iterator_id_m example_handler = 0"
  "adhoc_m example_handler = Map.empty"
  "predef_m example_handler = Map.empty"
  "combined_m example_handler = Map.empty"
  "alerts_m example_handler = Map.empty"
  by (simp_all add: example_handler_def)

lemma clashing_handler_simps [simp]:
  "handler_id_m clashing_handler = 7"
  "cur_table_m clashing_handler = Some ()"
  "iterator_id_m clashing_handler = 0"
  "adhoc_m clashing_handler = [0 \<mapsto> []]"
  "predef_m clashing_handler = [0 \<mapsto> []]"
  "combined_m clashing_handler = [0 \<mapsto> []]"
  "alerts_m clashing_handler = [0 \<mapsto> []]"
  by (simp_all add: clashing_handler_def)

lemma fresh_return_simps [simp]:
  "data fresh_return = []"
  by (simp add: fresh_return_def)

lemma descriptor_simps [simp]:
  "data_type (descriptor dt hid i k) = dt"
  "handler_id (descriptor dt hid i k) = hid"
  "id_desc (descriptor dt hid i k) = i"
  "type_desc (descriptor dt hid i k) = k"
  by (simp_all add: descriptor_def)

section \<open>What a call does to the handler\<close>

lemma adhoc_more_snd:
  "snd (adhoc_more env h ret i) =
     (case adhoc_m h i of
        None \<Rightarrow> h
      | Some res \<Rightarrow>
          (case cur_table_m h of
             None \<Rightarrow> h
           | Some t \<Rightarrow> h\<lparr>adhoc_m := (adhoc_m h)(i \<mapsto> drop (ITERATOR_BATCH_SIZE env) res)\<rparr>))"
  by (simp add: adhoc_more_def record_loop_eq Let_def split: option.splits)

lemma predef_more_snd:
  "snd (predef_more env h ret i) =
     (case predef_m h i of
        None \<Rightarrow> h
      | Some res \<Rightarrow>
          (case cur_table_m h of
             None \<Rightarrow> h
           | Some t \<Rightarrow> h\<lparr>predef_m := (predef_m h)(i \<mapsto> drop (ITERATOR_BATCH_SIZE env) res)\<rparr>))"
  by (simp add: predef_more_def record_loop_eq Let_def split: option.splits)

lemma combined_more_snd:
  "snd (combined_more env h ret i) =
     (case combined_m h i of
        None \<Rightarrow> h
      | Some res \<Rightarrow>
          (case cur_table_m h of
             None \<Rightarrow> h
           | Some t \<Rightarrow>
               h\<lparr>combined_m := (combined_m h)(i \<mapsto> drop (ITERATOR_BATCH_SIZE env) res)\<rparr>))"
  by (simp add: combined_more_def record_loop_eq Let_def split: option.splits)

lemma alerts_more_snd:
  "snd (alerts_more env h ret i) =
     (case alerts_m h i of
        None \<Rightarrow> h
      | Some res \<Rightarrow> h\<lparr>alerts_m := (alerts_m h)(i \<mapsto> drop (ITERATOR_BATCH_SIZE env) res)\<rparr>)"
  by (simp add: alerts_more_def alert_loop_eq Let_def split: option.splits)

lemma adhoc_filter_snd:
  "snd (adhoc_filter env h ret expr) =
     (case cur_table_m h of
        None \<Rightarrow> h\<lparr>iterator_id_m := increment_id (iterator_id_bits env) (iterator_id_m h)\<rparr>
      | Some t \<Rightarrow>
          (case tbl_execute_filter env t expr of
             Inl ex \<Rightarrow> h\<lparr>iterator_id_m := increment_id (iterator_id_bits env) (iterator_id_m h)\<rparr>
           | Inr res \<Rightarrow>
               (case adhoc_m h (iterator_id_m h) of
                  Some old \<Rightarrow> h\<lparr>iterator_id_m := increment_id (iterator_id_bits env) (iterator_id_m h)\<rparr>
                | None \<Rightarrow>
                    h\<lparr>iterator_id_m := increment_id (iterator_id_bits env) (iterator_id_m h),
                      adhoc_m := (adhoc_m h)
                        (iterator_id_m h \<mapsto> drop (ITERATOR_BATCH_SIZE env) res)\<rparr>)))"
  by (simp add: adhoc_filter_def new_iterator_id_def map_insert_def adhoc_more_snd Let_def
      split: option.splits sum.splits)

lemma predef_filter_snd:
  "snd (predef_filter env h ret name b e) =
     (case cur_table_m h of
        None \<Rightarrow> h\<lparr>iterator_id_m := increment_id (iterator_id_bits env) (iterator_id_m h)\<rparr>
      | Some t \<Rightarrow>
          (case tbl_query_filter env t name b e of
             Inl ex \<Rightarrow> h\<lparr>iterator_id_m := increment_id (iterator_id_bits env) (iterator_id_m h)\<rparr>
           | Inr res \<Rightarrow>
               (case predef_m h (iterator_id_m h) of
                  Some old \<Rightarrow> h\<lparr>iterator_id_m := increment_id (iterator_id_bits env) (iterator_id_m h)\<rparr>
                | None \<Rightarrow>
                    h\<lparr>iterator_id_m := increment_id (iterator_id_bits env) (iterator_id_m h),
                      predef_m := (predef_m h)
                        (iterator_id_m h \<mapsto> drop (ITERATOR_BATCH_SIZE env) res)\<rparr>)))"
  by (simp add: predef_filter_def new_iterator_id_def map_insert_def predef_more_snd Let_def
      split: option.splits sum.splits)

lemma combined_filter_snd:
  "snd (combined_filter env h ret name expr b e) =
     (case cur_table_m h of
        None \<Rightarrow> h\<lparr>iterator_id_m := increment_id (iterator_id_bits env) (iterator_id_m h)\<rparr>
      | Some t \<Rightarrow>
          (case tbl_query_filter_expr env t name expr b e of
             Inl ex \<Rightarrow> h\<lparr>iterator_id_m := increment_id (iterator_id_bits env) (iterator_id_m h)\<rparr>
           | Inr res \<Rightarrow>
               (case combined_m h (iterator_id_m h) of
                  Some old \<Rightarrow> h\<lparr>iterator_id_m := increment_id (iterator_id_bits env) (iterator_id_m h)\<rparr>
                | None \<Rightarrow>
                    h\<lparr>iterator_id_m := increment_id (iterator_id_bits env) (iterator_id_m h),
                      combined_m := (combined_m h)
                        (iterator_id_m h \<mapsto> drop (ITERATOR_BATCH_SIZE env) res)\<rparr>)))"
  by (simp add: combined_filter_def new_iterator_id_def map_insert_def combined_more_snd Let_def
      split: option.splits sum.splits)

lemma alerts_by_time_snd:
  "snd (alerts_by_time env h ret b e) =
     (case cur_table_m h of
        None \<Rightarrow> h\<lparr>iterator_id_m := increment_id (iterator_id_bits env) (iterator_id_m h)\<rparr>
      | Some t \<Rightarrow>
          (case tbl_get_alerts env t b e of
             Inl ex \<Rightarrow> h\<lparr>iterator_id_m := increment_id (iterator_id_bits env) (iterator_id_m h)\<rparr>
           | Inr res \<Rightarrow>
               (case alerts_m h (iterator_id_m h) of
                  Some old \<Rightarrow> h\<lparr>iterator_id_m := increment_id (iterator_id_bits env) (iterator_id_m h)\<rparr>
                | None \<Rightarrow>
                    h\<lparr>iterator_id_m := increment_id (iterator_id_bits env) (iterator_id_m h),
                      alerts_m := (alerts_m h)
                        (iterator_id_m h \<mapsto> drop (ITERATOR_BATCH_SIZE env) res)\<rparr>)))"
  by (simp add: alerts_by_time_def new_iterator_id_def map_insert_def alerts_more_snd Let_def
      split: option.splits sum.splits)

lemma get_more_snd:
  "snd (get_more env h ret d) =
     (if handler_id d \<noteq> handler_id_m h then h
      else (case type_desc d of
              RPC_ADHOC \<Rightarrow> snd (adhoc_more env h ret (id_desc d))
            | RPC_PREDEF \<Rightarrow> snd (predef_more env h ret (id_desc d))
            | RPC_COMBINED \<Rightarrow> snd (combined_more env h ret (id_desc d))
            | RPC_ALERTS \<Rightarrow> snd (alerts_more env h ret (id_desc d))))"
  by (simp add: get_more_def split: rpc_iterator_type.splits)

lemma plain_snd:
  "snd (deregister_handler env h) = h"
  "snd (create_table env h name schema mode) = h"
  "snd (add_index env h field bucket) = h"
  "snd (remove_index env h field) = h"
  "snd (add_filter env h name expr) = h"
  "snd (remove_filter env h name) = h"
  "snd (add_trigger env h name fname expr) = h"
  "snd (remove_trigger env h name) = h"
  "snd (append_rpc env h dat) = h"
  "snd (append_batch env h batch) = h"
  "snd (read_rpc env h offset nrecords) = h"
  "snd (num_records env h) = h"
  by (simp_all add: deregister_handler_def create_table_def add_index_def remove_index_def
      add_filter_def remove_filter_def add_trigger_def remove_trigger_def append_rpc_def
      append_batch_def read_rpc_def num_records_def Let_def split: option.splits sum.splits)

lemma register_handler_snd:
  "snd (register_handler env h) = h\<lparr>handler_id_m := register_thread env\<rparr>"
  by (simp add: register_handler_def Let_def)

lemma set_current_table_snd:
  "snd (set_current_table env h name) =
     (case store_get_table env name of Inl ex \<Rightarrow> h | Inr t \<Rightarrow> h\<lparr>cur_table_m := Some t\<rparr>)"
  by (simp add: set_current_table_def Let_def split: sum.splits)

lemma more_fields [simp]:
  "cur_table_m (snd (adhoc_more env h ret i)) = cur_table_m h"
  "iterator_id_m (snd (adhoc_more env h ret i)) = iterator_id_m h"
  "cur_table_m (snd (predef_more env h ret i)) = cur_table_m h"
  "iterator_id_m (snd (predef_more env h ret i)) = iterator_id_m h"
  "cur_table_m (snd (combined_more env h ret i)) = cur_table_m h"
  "iterator_id_m (snd (combined_more env h ret i)) = iterator_id_m h"
  "cur_table_m (snd (alerts_more env h ret i)) = cur_table_m h"
  "iterator_id_m (snd (alerts_more env h ret i)) = iterator_id_m h"
  by (simp_all add: adhoc_more_snd predef_more_snd combined_more_snd alerts_more_snd
      split: option.splits)

lemma get_more_fields [simp]:
  "cur_table_m (snd (get_more env h ret d)) = cur_table_m h"
  "iterator_id_m (snd (get_more env h ret d)) = iterator_id_m h"
  by (simp_all add: get_more_snd split: rpc_iterator_type.splits)

lemma open_fields [simp]:
  "cur_table_m (snd (adhoc_filter env h ret expr)) = cur_table_m h"
  "iterator_id_m (snd (adhoc_filter env h ret expr)) =
     increment_id (iterator_id_bits env) (iterator_id_m h)"
  "cur_table_m (snd (predef_filter env h ret name b e)) = cur_table_m h"
  "iterator_id_m (snd (predef_filter env h ret name b e)) =
     increment_id (iterator_id_bits env) (iterator_id_m h)"
  "cur_table_m (snd (combined_filter env h ret name expr b e)) = cur_table_m h"
  "iterator_id_m (snd (combined_filter env h ret name expr b e)) =
     increment_id (iterator_id_bits env) (iterator_id_m h)"
  "cur_table_m (snd (alerts_by_time env h ret b e)) = cur_table_m h"
  "iterator_id_m (snd (alerts_by_time env h ret b e)) =
     increment_id (iterator_id_bits env) (iterator_id_m h)"
  by (simp_all add: adhoc_filter_snd predef_filter_snd combined_filter_snd alerts_by_time_snd
      split: option.splits sum.splits)

lemmas other_snd = plain_snd register_handler_snd set_current_table_snd

lemma step_iterator_id:
  "iterator_id_m (step env c h) =
     (if opens c = None then iterator_id_m h
      else increment_id (iterator_id_bits env) (iterator_id_m h))"
  by (cases c) (simp_all add: other_snd split: sum.splits)


subsection \<open>Cursors are advanced, never dropped\<close>

lemma other_cursor_items:
  "cursor_items e (h\<lparr>handler_id_m := v\<rparr>) k j = cursor_items e h k j"
  "cursor_items e (h\<lparr>cur_table_m := t\<rparr>) k j = cursor_items e h k j"
  "cursor_items e (h\<lparr>iterator_id_m := n\<rparr>) k j = cursor_items e h k j"
  by (simp_all add: cursor_items_def split: rpc_iterator_type.splits)

lemma adhoc_more_cursor_items:
  "cursor_items e (snd (adhoc_more env h ret i)) k j =
     map_option (drop (if k = RPC_ADHOC \<and> j = i \<and> cur_table_m h \<noteq> None
                       then ITERATOR_BATCH_SIZE env else 0)) (cursor_items e h k j)"
  by (cases k) (simp_all add: cursor_items_def adhoc_more_snd option.map_ident
      split: option.splits)

lemma predef_more_cursor_items:
  "cursor_items e (snd (predef_more env h ret i)) k j =
     map_option (drop (if k = RPC_PREDEF \<and> j = i \<and> cur_table_m h \<noteq> None
                       then ITERATOR_BATCH_SIZE env else 0)) (cursor_items e h k j)"
  by (cases k) (simp_all add: cursor_items_def predef_more_snd option.map_ident
      split: option.splits)

lemma combined_more_cursor_items:
  "cursor_items e (snd (combined_more env h ret i)) k j =
     map_option (drop (if k = RPC_COMBINED \<and> j = i \<and> cur_table_m h \<noteq> None
                       then ITERATOR_BATCH_SIZE env else 0)) (cursor_items e h k j)"
  by (cases k) (simp_all add: cursor_items_def combined_more_snd option.map_ident
      split: option.splits)

lemma alerts_more_cursor_items:
  "cursor_items e (snd (alerts_more env h ret i)) k j =
     map_option (drop (if k = RPC_ALERTS \<and> j = i
                       then ITERATOR_BATCH_SIZE env else 0)) (cursor_items e h k j)"
  by (cases k) (simp_all add: cursor_items_def alerts_more_snd option.map_ident drop_map
      split: option.splits)

lemma get_more_cursor_items:
  "\<exists>n. cursor_items e (snd (get_more env h ret d)) k j = map_option (drop n) (cursor_items e h k j)"
proof (cases "handler_id d \<noteq> handler_id_m h")
  case True
  then have "cursor_items e (snd (get_more env h ret d)) k j
      = map_option (drop 0) (cursor_items e h k j)"
    by (simp add: get_more_snd option.map_ident)
  then show ?thesis by (rule exI)
next
  case False
  show ?thesis
  proof (cases "type_desc d")
    case RPC_ADHOC
    with False have "snd (get_more env h ret d) = snd (adhoc_more env h ret (id_desc d))"
      by (simp add: get_more_def)
    then show ?thesis by (simp only: adhoc_more_cursor_items) (rule exI, rule refl)
  next
    case RPC_PREDEF
    with False have "snd (get_more env h ret d) = snd (predef_more env h ret (id_desc d))"
      by (simp add: get_more_def)
    then show ?thesis by (simp only: predef_more_cursor_items) (rule exI, rule refl)
  next
    case RPC_COMBINED
    with False have "snd (get_more env h ret d) = snd (combined_more env h ret (id_desc d))"
      by (simp add: get_more_def)
    then show ?thesis by (simp only: combined_more_cursor_items) (rule exI, rule refl)
  next
    case RPC_ALERTS
    with False have "snd (get_more env h ret d) = snd (alerts_more env h ret (id_desc d))"
      by (simp add: get_more_def)
    then show ?thesis by (simp only: alerts_more_cursor_items) (rule exI, rule refl)
  qed
qed

lemma adhoc_filter_cursor_items:
  "cursor_items e (snd (adhoc_filter env h ret expr)) k j = cursor_items e h k j
   \<or> (cursor_items e h k j = None \<and> k = RPC_ADHOC \<and> j = iterator_id_m h
       \<and> cur_table_m h \<noteq> None)"
  by (cases k) (simp_all add: cursor_items_def adhoc_filter_snd split: option.splits sum.splits)

lemma predef_filter_cursor_items:
  "cursor_items e (snd (predef_filter env h ret name b e')) k j = cursor_items e h k j
   \<or> (cursor_items e h k j = None \<and> k = RPC_PREDEF \<and> j = iterator_id_m h
       \<and> cur_table_m h \<noteq> None)"
  by (cases k) (simp_all add: cursor_items_def predef_filter_snd split: option.splits sum.splits)

lemma combined_filter_cursor_items:
  "cursor_items e (snd (combined_filter env h ret name expr b e')) k j = cursor_items e h k j
   \<or> (cursor_items e h k j = None \<and> k = RPC_COMBINED \<and> j = iterator_id_m h
       \<and> cur_table_m h \<noteq> None)"
  by (cases k)
    (simp_all add: cursor_items_def combined_filter_snd split: option.splits sum.splits)

lemma alerts_by_time_cursor_items:
  "cursor_items e (snd (alerts_by_time env h ret b e')) k j = cursor_items e h k j
   \<or> (cursor_items e h k j = None \<and> k = RPC_ALERTS \<and> j = iterator_id_m h
       \<and> cur_table_m h \<noteq> None)"
  by (cases k)
    (simp_all add: cursor_items_def alerts_by_time_snd split: option.splits sum.splits)

text \<open>Every call either advances the cursors it finds, or leaves them and opens one.\<close>

lemma step_cursor_items:
  "(\<exists>n. cursor_items e (step env c h) k j = map_option (drop n) (cursor_items e h k j))
   \<or> (cursor_items e h k j = None \<and> opens c = Some k \<and> j = iterator_id_m h
       \<and> cur_table_m h \<noteq> None)"
proof -
  have same: "cursor_items e h' k j = cursor_items e h k j
    \<Longrightarrow> \<exists>n. cursor_items e h' k j = map_option (drop n) (cursor_items e h k j)" for h'
    by (rule exI [of _ 0]) (simp add: option.map_ident)
  show ?thesis
  proof (cases c)
    case (Get_more ret d)
    with get_more_cursor_items [of e env h ret d k j] show ?thesis by simp
  next
    case (Adhoc_filter ret expr)
    with adhoc_filter_cursor_items [of e env h ret expr k j] same show ?thesis by auto
  next
    case (Predef_filter ret name b e')
    with predef_filter_cursor_items [of e env h ret name b e' k j] same show ?thesis by auto
  next
    case (Combined_filter ret name expr b e')
    with combined_filter_cursor_items [of e env h ret name expr b e' k j] same
    show ?thesis by auto
  next
    case (Alerts_by_time ret b e')
    with alerts_by_time_cursor_items [of e env h ret b e' k j] same show ?thesis by auto
  next
    case (Set_current_table name)
    then show ?thesis
      by (intro disjI1 same) (simp add: other_snd other_cursor_items split: sum.splits)
  qed (intro disjI1 same, simp add: other_snd other_cursor_items)+
qed

lemma step_cursor_kept:
  assumes "cursor_items e h k i = Some items"
  shows "\<exists>n. cursor_items e (step env c h) k i = Some (drop n items)"
  using step_cursor_items [of e env c h k i] assms by auto

lemma step_cursor_new:
  assumes "cursor_items e (step env c h) k i \<noteq> None"
  shows "cursor_items e h k i \<noteq> None
    \<or> (opens c = Some k \<and> i = iterator_id_m h \<and> cur_table_m h \<noteq> None)"
  using step_cursor_items [of e env c h k i] assms by auto

subsection \<open>Sessions\<close>

lemma run_append: "run (tr1 @ tr2) h = run tr2 (run tr1 h)"
  by (induction tr1 arbitrary: h) auto


lemma has_cursor_items: "has_cursor h k i \<longleftrightarrow> cursor_items e h k i \<noteq> None"
  by (cases k) (simp_all add: has_cursor_def cursor_items_def)

lemma step_has_cursor:
  assumes "has_cursor (step env c h) k i"
  shows "has_cursor h k i
    \<or> (opens c = Some k \<and> i = iterator_id_m h \<and> cur_table_m h \<noteq> None)"
  using assms step_cursor_new [of env env c h k i]
  by (simp add: has_cursor_items [where e = env])

lemma step_keeps_cursor:
  assumes "has_cursor h k i"
  shows "has_cursor (step env c h) k i"
proof -
  from assms obtain items where "cursor_items env h k i = Some items"
    by (auto simp: has_cursor_items [where e = env])
  from step_cursor_kept [OF this, of env c] show ?thesis
    by (auto simp: has_cursor_items [where e = env])
qed

lemma run_has_cursor:
  "has_cursor h k i \<Longrightarrow> has_cursor (run tr h) k i"
proof (induction tr arbitrary: h)
  case Nil
  then show ?case by simp
next
  case (Cons a tr)
  obtain env c where a: "a = (env, c)" by (cases a)
  from Cons.prems have "has_cursor (step env c h) k i" by (rule step_keeps_cursor)
  from Cons.IH [OF this] show ?case by (simp add: a)
qed



lemma new_handler_has_no_cursor: "\<not> has_cursor dialog_service_handler k i"
  by (cases k) (simp_all add: has_cursor_def dialog_service_handler_def)


subsection \<open>The counter\<close>

lemma wrap_id_in_range:
  assumes "0 < bits" and "- (2 ^ (bits - 1)) \<le> x" and "x < 2 ^ (bits - 1)"
  shows "wrap_id bits x = x"
proof -
  from assms(1) have "(2::int) ^ bits = 2 * 2 ^ (bits - 1)"
    by (cases bits) simp_all
  with assms(2,3) have "(x + 2 ^ (bits - 1)) mod 2 ^ bits = x + 2 ^ (bits - 1)"
    by (intro mod_pos_pos_trivial) simp_all
  then show ?thesis by (simp add: wrap_id_def)
qed

lemma increment_id_in_range:
  assumes "0 < bits" and "0 \<le> x" and "x + 1 < 2 ^ (bits - 1)"
  shows "increment_id bits x = x + 1"
proof -
  have "- (2 ^ (bits - 1)) \<le> (0::int)" by simp
  with assms(2) have "- (2 ^ (bits - 1)) \<le> x + 1" by linarith
  with assms(1,3) show ?thesis
    unfolding increment_id_def by (intro wrap_id_in_range)
qed

lemma increment_wrap_id: "increment_id bits (wrap_id bits x) = wrap_id bits (x + 1)"
proof -
  have "((x + 2 ^ (bits - 1)) mod 2 ^ bits + 1) mod 2 ^ bits
      = (x + 2 ^ (bits - 1) + 1) mod (2 ^ bits :: int)"
    by (rule mod_add_left_eq)
  then show ?thesis
    by (simp add: increment_id_def wrap_id_def algebra_simps)
qed

text \<open>The number of cursor-open calls of a session.\<close>

lemma run_counter_wraps:
  assumes "list_all (\<lambda>(env, c). iterator_id_bits env = w) tr"
    and "iterator_id_m h = wrap_id w x"
  shows "iterator_id_m (run tr h) =
    wrap_id w (x + int (length (filter (\<lambda>(env, c). opens c \<noteq> None) tr)))"
  using assms
proof (induction tr arbitrary: h x)
  case Nil
  then show ?case by simp
next
  case (Cons a tr)
  obtain env c where a: "a = (env, c)" by (cases a)
  from Cons.prems a have w: "iterator_id_bits env = w"
    and rest: "list_all (\<lambda>(env, c). iterator_id_bits env = w) tr"
    by simp_all
  show ?case
  proof (cases "opens c = None")
    case True
    with Cons.prems(2) have "iterator_id_m (step env c h) = wrap_id w x"
      by (simp add: step_iterator_id)
    from Cons.IH [OF rest this] True show ?thesis by (simp add: a)
  next
    case False
    with Cons.prems(2) w have "iterator_id_m (step env c h) = wrap_id w (x + 1)"
      by (simp add: step_iterator_id increment_wrap_id del: not_None_eq)
    from Cons.IH [OF rest this] False show ?thesis
      by (simp add: a add.assoc del: not_None_eq)
  qed
qed

lemma run_counter:
  assumes width: "0 < w"
    and same: "list_all (\<lambda>(env, c). iterator_id_bits env = w) tr"
    and bound: "int (length (filter (\<lambda>(env, c). opens c \<noteq> None) tr)) < 2 ^ (w - 1)"
  shows "iterator_id_m (run tr dialog_service_handler) =
    int (length (filter (\<lambda>(env, c). opens c \<noteq> None) tr))"
proof -
  have zero: "iterator_id_m (dialog_service_handler :: ('a, 'b) handler) = wrap_id w 0"
    using width by (simp add: wrap_id_in_range dialog_service_handler_def)
  have "- (2 ^ (w - 1)) \<le> (0::int)" by simp
  then have "- (2 ^ (w - 1)) \<le> int (length (filter (\<lambda>(env, c). opens c \<noteq> None) tr))"
    by linarith
  with run_counter_wraps [OF same zero] width bound show ?thesis
    by (simp add: wrap_id_in_range)
qed

text \<open>The invariant of a session while the counter has not overflowed: every cursor has an
  id from 0 up to the counter, and no id is in two maps.\<close>

lemma step_bounds:
  assumes ok: "\<forall>k i. has_cursor h k i \<longrightarrow> 0 \<le> i \<and> i < iterator_id_m h"
    and nonneg: "0 \<le> iterator_id_m h"
    and inc: "iterator_id_m (step env c h) = iterator_id_m h + (if opens c = None then 0 else 1)"
  shows "\<forall>k i. has_cursor (step env c h) k i \<longrightarrow> 0 \<le> i \<and> i < iterator_id_m (step env c h)"
proof (intro allI impI)
  fix k i
  assume "has_cursor (step env c h) k i"
  from step_has_cursor [OF this]
  have "0 \<le> i \<and> i < iterator_id_m h + (if opens c = None then 0 else 1)"
  proof
    assume "has_cursor h k i"
    with ok have "0 \<le> i \<and> i < iterator_id_m h" by blast
    then show ?thesis by simp
  next
    assume "opens c = Some k \<and> i = iterator_id_m h \<and> cur_table_m h \<noteq> None"
    with nonneg show ?thesis by simp
  qed
  then show "0 \<le> i \<and> i < iterator_id_m (step env c h)"
    by (simp add: inc)
qed

lemma step_distinct:
  assumes ok: "\<forall>k i. has_cursor h k i \<longrightarrow> 0 \<le> i \<and> i < iterator_id_m h"
    and dist: "\<forall>k k' i. has_cursor h k i \<and> has_cursor h k' i \<longrightarrow> k = k'"
  shows "\<forall>k k' i. has_cursor (step env c h) k i \<and> has_cursor (step env c h) k' i \<longrightarrow> k = k'"
proof (intro allI impI)
  fix k k' i
  assume a: "has_cursor (step env c h) k i \<and> has_cursor (step env c h) k' i"
  from a step_has_cursor [of env c h k i] step_has_cursor [of env c h k' i] ok dist
  show "k = k'" by (metis less_irrefl option.inject)
qed

lemma run_session:
  assumes width: "0 < w"
    and same: "list_all (\<lambda>(env, c). iterator_id_bits env = w) tr"
    and bound: "iterator_id_m h + int (length (filter (\<lambda>(env, c). opens c \<noteq> None) tr))
          < 2 ^ (w - 1)"
    and ok: "\<forall>k i. has_cursor h k i \<longrightarrow> 0 \<le> i \<and> i < iterator_id_m h"
    and nonneg: "0 \<le> iterator_id_m h"
    and dist: "\<forall>k k' i. has_cursor h k i \<and> has_cursor h k' i \<longrightarrow> k = k'"
  shows "(\<forall>k i. has_cursor (run tr h) k i \<longrightarrow> 0 \<le> i \<and> i < iterator_id_m (run tr h))
    \<and> (\<forall>k k' i. has_cursor (run tr h) k i \<and> has_cursor (run tr h) k' i \<longrightarrow> k = k')"
  using same bound ok nonneg dist
proof (induction tr arbitrary: h)
  case Nil
  then show ?case by simp
next
  case (Cons a tr)
  obtain env c where a: "a = (env, c)" by (cases a)
  from Cons.prems(1) a have w: "iterator_id_bits env = w"
    and rest: "list_all (\<lambda>(env, c). iterator_id_bits env = w) tr"
    by simp_all
  have inc: "iterator_id_m (step env c h) = iterator_id_m h + (if opens c = None then 0 else 1)"
  proof (cases "opens c = None")
    case True
    then show ?thesis by (simp add: step_iterator_id)
  next
    case False
    with Cons.prems(2) a have "iterator_id_m h + 1 < 2 ^ (w - 1)"
      by (simp del: not_None_eq)
    with width Cons.prems(4) have "increment_id w (iterator_id_m h) = iterator_id_m h + 1"
      by (intro increment_id_in_range)
    with False w show ?thesis by (simp add: step_iterator_id del: not_None_eq)
  qed
  have 1: "\<forall>k i. has_cursor (step env c h) k i \<longrightarrow> 0 \<le> i \<and> i < iterator_id_m (step env c h)"
    using Cons.prems(3,4) inc by (rule step_bounds)
  have 2: "0 \<le> iterator_id_m (step env c h)"
    using Cons.prems(4) by (simp add: inc)
  have 3: "\<forall>k k' i. has_cursor (step env c h) k i \<and> has_cursor (step env c h) k' i \<longrightarrow> k = k'"
    using Cons.prems(3,5) by (rule step_distinct)
  have 4: "iterator_id_m (step env c h)
      + int (length (filter (\<lambda>(env, c). opens c \<noteq> None) tr)) < 2 ^ (w - 1)"
    using Cons.prems(2) a by (simp add: inc del: not_None_eq split: if_splits)
  from Cons.IH [OF rest 4 1 2 3] show ?case by (simp add: a)
qed

lemma session_invariant:
  assumes width: "0 < w"
    and same: "list_all (\<lambda>(env, c). iterator_id_bits env = w) tr"
    and bound: "int (length (filter (\<lambda>(env, c). opens c \<noteq> None) tr)) < 2 ^ (w - 1)"
  shows "(\<forall>k i. has_cursor (run tr dialog_service_handler) k i \<longrightarrow>
        0 \<le> i \<and> i < iterator_id_m (run tr dialog_service_handler))
    \<and> (\<forall>k k' i. has_cursor (run tr dialog_service_handler) k i
          \<and> has_cursor (run tr dialog_service_handler) k' i \<longrightarrow> k = k')"
proof (rule run_session [OF width same])
  show "iterator_id_m (dialog_service_handler :: ('a, 'b) handler)
      + int (length (filter (\<lambda>(env, c). opens c \<noteq> None) tr)) < 2 ^ (w - 1)"
    using bound by (simp add: dialog_service_handler_def del: not_None_eq)
  show "\<forall>k i. has_cursor (dialog_service_handler :: ('a, 'b) handler) k i \<longrightarrow>
      0 \<le> i \<and> i < iterator_id_m (dialog_service_handler :: ('a, 'b) handler)"
    by (simp add: new_handler_has_no_cursor)
  show "0 \<le> iterator_id_m (dialog_service_handler :: ('a, 'b) handler)"
    by (simp add: dialog_service_handler_def)
  show "\<forall>k k' i. has_cursor (dialog_service_handler :: ('a, 'b) handler) k i
      \<and> has_cursor (dialog_service_handler :: ('a, 'b) handler) k' i \<longrightarrow> k = k'"
    by (simp add: new_handler_has_no_cursor)
qed

subsection \<open>A session longer than the counter\<close>

lemma wrap_id_full:
  assumes "0 < bits"
  shows "wrap_id bits (2 ^ bits) = 0"
proof -
  from assms have "(2::int) ^ bits = 2 * 2 ^ (bits - 1)"
    by (cases bits) simp_all
  then have "(2::int) ^ (bits - 1) < 2 ^ bits" by simp
  then have "(2 ^ (bits - 1)) mod (2 ^ bits) = (2 ^ (bits - 1) :: int)"
    by (intro mod_pos_pos_trivial) simp_all
  then show ?thesis by (simp add: wrap_id_def)
qed

lemma long_session_opens:
  "length (filter (\<lambda>(env, c). opens c \<noteq> None) (long_session env n)) = Suc n"
  by (simp add: long_session_def del: not_None_eq)

lemma long_session_open_calls: "open_calls (long_session env n) = Suc n"
  by (simp add: open_calls_def long_session_opens del: not_None_eq)

lemma counter_wraps_around:
  assumes bits: "0 < iterator_id_bits env"
    and table: "store_get_table env ''my_table'' = Inr t"
    and alerts: "tbl_get_alerts env t 0 9 = Inr as"
  shows "has_cursor (run (long_session env (2 ^ iterator_id_bits env - 1)) dialog_service_handler)
        RPC_ALERTS 0
    \<and> iterator_id_m (run (long_session env (2 ^ iterator_id_bits env - 1)) dialog_service_handler)
        = 0"
proof -
  let ?w = "iterator_id_bits env"
  let ?tr = "long_session env (2 ^ ?w - 1)"
  let ?init = "dialog_service_handler :: ('a, 'b) handler"
  let ?h2 = "run [(env, Set_current_table ''my_table''), (env, Alerts_by_time fresh_return 0 9)]
      ?init"
  have "has_cursor ?h2 RPC_ALERTS 0"
    using table alerts
    by (simp add: other_snd alerts_by_time_snd dialog_service_handler_def has_cursor_def)
  then have "has_cursor (run (replicate (2 ^ ?w - 1) (env, Alerts_by_time fresh_return 0 9)) ?h2)
      RPC_ALERTS 0"
    by (rule run_has_cursor)
  then have cursor: "has_cursor (run ?tr ?init) RPC_ALERTS 0"
    by (simp add: long_session_def)
  have same: "list_all (\<lambda>(env', c). iterator_id_bits env' = ?w) ?tr"
    by (simp add: long_session_def list_all_iff)
  have zero: "iterator_id_m ?init = wrap_id ?w 0"
    using bits by (simp add: wrap_id_in_range dialog_service_handler_def)
  have "int (Suc (2 ^ ?w - 1)) = 2 ^ ?w" by simp
  with run_counter_wraps [OF same zero] have "iterator_id_m (run ?tr ?init) = wrap_id ?w (2 ^ ?w)"
    by (simp add: long_session_opens del: of_nat_Suc not_None_eq)
  with bits have "iterator_id_m (run ?tr ?init) = 0" by (simp add: wrap_id_full)
  with cursor show ?thesis by simp
qed

lemma example_trace_run: "run example_trace dialog_service_handler = example_trace_end"
  by (simp add: example_trace_def example_trace_end_def dialog_service_handler_def
      other_snd adhoc_filter_snd alerts_by_time_snd get_more_snd alerts_more_snd
      increment_id_in_range)




section \<open>Appending to the record store\<close>

lemma rs_append_all_eq:
  "rs_append_all st rs =
     (map (\<lambda>j. rs_tail st + length (concat (take j rs))) [0..<length rs],
      st\<lparr>arena := arena st @ concat rs\<rparr>)"
proof (induction rs arbitrary: st)
  case Nil
  then show ?case by simp
next
  case (Cons r rs)
  have "map (\<lambda>j. rs_tail st + length (concat (take j (r # rs)))) [0..<length (r # rs)]
      = rs_tail st # map (\<lambda>j. rs_tail st + length r + length (concat (take j rs))) [0..<length rs]"
    by (simp add: upt_conv_Cons map_Suc_upt [symmetric] del: upt_Suc)
  then show ?case
    by (simp add: Cons.IH rs_append_def rs_tail_def add.assoc)
qed

lemma concat_fixed_length:
  "\<forall>r\<in>set rs. length r = n \<Longrightarrow> length (concat rs) = length rs * n"
  by (induction rs) auto

lemma concat_fixed_nth:
  "\<forall>r\<in>set rs. length r = n \<Longrightarrow> i < length rs
    \<Longrightarrow> take n (drop (i * n) (concat rs)) = rs ! i"
proof (induction rs arbitrary: i)
  case Nil
  then show ?case by simp
next
  case (Cons r rs)
  show ?case
  proof (cases i)
    case 0
    with Cons.prems show ?thesis by simp
  next
    case (Suc j)
    with Cons.prems have "take n (drop (j * n) (concat rs)) = rs ! j"
      by (intro Cons.IH) auto
    with Cons.prems Suc show ?thesis by simp
  qed
qed

lemma append_all_reads:
  assumes size: "0 < n"
    and records: "\<forall>r\<in>set rs. length r = n"
    and appended: "rs_append_all (new_record_store n) rs = (offsets, st)"
  shows "length offsets = length rs
    \<and> (\<forall>i<length rs. rs_read st (offsets ! i) = Some (rs ! i))
    \<and> rs_num_records st = length rs"
proof -
  from appended have offsets: "offsets = map (\<lambda>j. length (concat (take j rs))) [0..<length rs]"
    and st: "st = \<lparr>record_size = n, arena = concat rs\<rparr>"
    by (simp_all add: rs_append_all_eq new_record_store_def rs_tail_def)
  have len: "length (concat rs) = length rs * n"
    using records by (rule concat_fixed_length)
  have "rs_read st (offsets ! i) = Some (rs ! i)" if i: "i < length rs" for i
  proof -
    have "\<forall>r\<in>set (take i rs). length r = n"
      using records by (auto dest: in_set_takeD)
    then have "length (concat (take i rs)) = length (take i rs) * n"
      by (rule concat_fixed_length)
    with i have off: "offsets ! i = i * n" by (simp add: offsets)
    from i have "Suc i \<le> length rs" by simp
    then have "Suc i * n \<le> length rs * n" by (rule mult_le_mono1)
    then have "i * n + n \<le> length (concat rs)" by (simp add: len)
    with concat_fixed_nth [OF records i] show ?thesis
      by (simp add: rs_read_def st off rs_tail_def)
  qed
  moreover have "length offsets = length rs" by (simp add: offsets)
  moreover have "rs_num_records st = length rs"
    using size by (simp add: rs_num_records_def st rs_tail_def len)
  ultimately show ?thesis by blast
qed

lemma test_append_and_get_passes:
  assumes size: "0 < n"
  shows "test_append_and_get (new_record_store n) m n"
proof -
  define rs where "rs = map (generate_bytes n) [0..<m]"
  obtain offsets st where appended: "rs_append_all (new_record_store n) rs = (offsets, st)"
    by (cases "rs_append_all (new_record_store n) rs")
  have records: "\<forall>r\<in>set rs. length r = n"
    by (auto simp: rs_def generate_bytes_def)
  have len: "length rs = m" by (simp add: rs_def)
  from append_all_reads [OF size records appended] len
  have reads: "\<forall>i<m. rs_read st (offsets ! i) = Some (rs ! i)"
    and count: "rs_num_records st = m"
    by simp_all
  have "list_all
      (\<lambda>i. case rs_read st (offsets ! i) of
              None \<Rightarrow> False
            | Some dat \<Rightarrow>
                list_all (\<lambda>j. j < length dat \<and> dat ! j = char_of (i mod 256)) [0..<n])
      [0..<m]"
    using reads by (simp add: list_all_iff rs_def generate_bytes_def)
  with count appended show ?thesis
    by (simp add: test_append_and_get_def rs_def)
qed

section \<open>The ids of the table registry\<close>

lemma add_table_snd:
  "snd (add_table st name schema) =
     (case tables st name of
        Some tb \<Rightarrow> st
      | None \<Rightarrow>
          st\<lparr>tables := (tables st)(name \<mapsto>
                 \<lparr>table_name = name, table_id = next_id st, table_schema = schema\<rparr>),
             tables_by_id := (tables_by_id st)(next_id st \<mapsto>
                 \<lparr>table_name = name, table_id = next_id st, table_schema = schema\<rparr>),
             next_id := next_id st + 1\<rparr>)"
  by (simp add: add_table_def Let_def split: option.splits)

lemma remove_table_snd:
  "snd (remove_table st i) =
     (case tables_by_id st i of
        None \<Rightarrow> st
      | Some tb \<Rightarrow> st\<lparr>tables := (tables st)(table_name tb := None),
                       tables_by_id := (tables_by_id st)(i := None)\<rparr>)"
  by (simp add: remove_table_def split: option.splits)

lemma remove_table_by_name_snd:
  "snd (remove_table_by_name st name) =
     (case tables st name of None \<Rightarrow> st | Some tb \<Rightarrow> snd (remove_table st (table_id tb)))"
  by (simp add: remove_table_by_name_def split: option.splits prod.splits)

lemma remove_table_ids:
  "tables_by_id (snd (remove_table st j)) i = Some tb \<Longrightarrow> tables_by_id st i = Some tb"
  "next_id (snd (remove_table st j)) = next_id st"
  by (simp_all add: remove_table_snd split: option.splits if_splits)

lemma add_table_ids:
  "tables_by_id (snd (add_table st name schema)) i = Some tb
    \<Longrightarrow> tables_by_id st i = Some tb \<or> i = next_id st"
  "next_id st \<le> next_id (snd (add_table st name schema))"
  "tables_by_id (snd (add_table st name schema)) (next_id st) = Some tb
    \<Longrightarrow> tables_by_id st (next_id st) = Some tb
      \<or> next_id st < next_id (snd (add_table st name schema))"
  by (simp_all add: add_table_snd split: option.splits if_splits)

lemma store_step_ids:
  assumes ok: "\<forall>i tb. tables_by_id st i = Some tb \<longrightarrow> 0 \<le> i \<and> i < next_id st"
    and nonneg: "0 \<le> next_id st"
  shows "(\<forall>i tb. tables_by_id (store_step c st) i = Some tb \<longrightarrow>
            0 \<le> i \<and> i < next_id (store_step c st))
    \<and> 0 \<le> next_id (store_step c st)"
proof (cases c)
  case (Add_table name schema)
  have "0 \<le> i \<and> i < next_id (snd (add_table st name schema))"
    if "tables_by_id (snd (add_table st name schema)) i = Some tb" for i tb
  proof (cases "i = next_id st")
    case True
    with add_table_ids(3) [of st name schema tb] that ok nonneg show ?thesis by auto
  next
    case False
    with add_table_ids(1) [OF that] have "tables_by_id st i = Some tb" by simp
    with ok have "0 \<le> i \<and> i < next_id st" by blast
    with add_table_ids(2) [of st name schema] show ?thesis by simp
  qed
  moreover from nonneg add_table_ids(2) [of st name schema]
  have "0 \<le> next_id (snd (add_table st name schema))" by simp
  ultimately show ?thesis by (simp add: Add_table)
next
  case (Remove_table j)
  with ok nonneg show ?thesis by (auto dest: remove_table_ids(1) simp: remove_table_ids(2))
next
  case (Remove_table_by_name name)
  show ?thesis
  proof (cases "tables st name")
    case None
    with ok nonneg Remove_table_by_name show ?thesis by (simp add: remove_table_by_name_snd)
  next
    case (Some tb)
    with ok nonneg Remove_table_by_name show ?thesis
      by (auto dest: remove_table_ids(1) simp: remove_table_ids(2) remove_table_by_name_snd)
  qed
qed

lemma store_run_ids:
  assumes "\<forall>i tb. tables_by_id st i = Some tb \<longrightarrow> 0 \<le> i \<and> i < next_id st"
    and "0 \<le> next_id st"
  shows "(\<forall>i tb. tables_by_id (store_run cs st) i = Some tb \<longrightarrow>
            0 \<le> i \<and> i < next_id (store_run cs st))
    \<and> 0 \<le> next_id (store_run cs st)"
  using assms
proof (induction cs arbitrary: st)
  case Nil
  then show ?case by simp
next
  case (Cons c cs)
  from store_step_ids [OF Cons.prems, of c]
  have "(\<forall>i tb. tables_by_id (store_run cs (store_step c st)) i = Some tb \<longrightarrow>
            0 \<le> i \<and> i < next_id (store_run cs (store_step c st)))
    \<and> 0 \<le> next_id (store_run cs (store_step c st))"
    by (intro Cons.IH) blast+
  then show ?case by simp
qed

lemma example_store_run:
  "store_run [Add_table ''my_table'' ()] empty_store = example_store"
  by (simp add: add_table_snd empty_store_def example_store_def)

lemma example_store_removed_run:
  "store_run [Add_table ''my_table'' (), Remove_table 0] empty_store = example_store_removed"
proof -
  have "store_run [Add_table ''my_table'' (), Remove_table 0] empty_store
      = snd (remove_table example_store 0)"
    using example_store_run by simp
  also have "\<dots> = example_store_removed"
    by (simp add: remove_table_snd example_store_def example_store_removed_def)
  finally show ?thesis .
qed

section \<open>The claims\<close>

subsection \<open>C1: the handler check of \<open>get_more\<close>\<close>

text \<open>
  Claim C1. When the descriptor's \<open>handler_id\<close> differs from the session's,
  \<open>get_more\<close> throws \<open>rpc_invalid_operation\<close> with the message
  \<open>handler_id mismatch\<close> and leaves the handler, and so every cursor, as it was. When
  they are equal, \<open>get_more\<close> is the \<open>_more\<close> routine of the descriptor's kind,
  called with the descriptor's id.
\<close>

theorem get_more_handler_check:
  "(handler_id d \<noteq> handler_id_m h \<longrightarrow>
      get_more env h ret d = (Inl (rpc_invalid_operation ''handler_id mismatch''), h))
   \<and> (handler_id d = handler_id_m h \<longrightarrow>
      get_more env h ret d =
        (case type_desc d of
           RPC_ADHOC \<Rightarrow> adhoc_more env h ret (id_desc d)
         | RPC_PREDEF \<Rightarrow> predef_more env h ret (id_desc d)
         | RPC_COMBINED \<Rightarrow> combined_more env h ret (id_desc d)
         | RPC_ALERTS \<Rightarrow> alerts_more env h ret (id_desc d)))"
  by (simp add: get_more_def)

text \<open>
  On the example: a descriptor issued to handler 8 is refused by handler 7, and one issued
  to handler 7 reaches \<open>adhoc_more\<close>.
\<close>

theorem get_more_handler_check_witness:
  "handler_id (descriptor RPC_RECORD 8 0 RPC_ADHOC) \<noteq> handler_id_m example_open_handler
   \<and> get_more example_env example_open_handler fresh_return (descriptor RPC_RECORD 8 0 RPC_ADHOC)
       = (Inl (rpc_invalid_operation ''handler_id mismatch''), example_open_handler)
   \<and> handler_id (descriptor RPC_RECORD 7 0 RPC_ADHOC) = handler_id_m example_open_handler
   \<and> get_more example_env example_open_handler fresh_return (descriptor RPC_RECORD 7 0 RPC_ADHOC)
       = adhoc_more example_env example_open_handler fresh_return 0"
  using get_more_handler_check [of "descriptor RPC_RECORD 8 0 RPC_ADHOC" example_open_handler
      example_env fresh_return]
    get_more_handler_check [of "descriptor RPC_RECORD 7 0 RPC_ADHOC" example_open_handler
      example_env fresh_return]
  by simp

subsection \<open>C2: pages and their concatenation\<close>



subsection \<open>C3: a duplicate cursor id\<close>

text \<open>
  Claim C3 gives the message as \<open>Duplicate iterator id\<close>. On the handler whose
  counter stands at an id that \<open>predef_\<close> already holds, \<open>predef_filter\<close>
  creates the stream, fails to insert it, and throws \<open>rpc_invalid_operation\<close> with the
  message \<open>Duplicate rpc_iterator_id assigned\<close>, which is not the message of the claim.
\<close>

theorem duplicate_iterator_id_counterexample:
  "cur_table_m clashing_handler = Some ()
   \<and> tbl_query_filter example_env () ''hi_e'' 0 9 = Inr [''r0'', ''r1'', ''r2'', ''r3'', ''r4'']
   \<and> predef_m clashing_handler (fst (new_iterator_id example_env clashing_handler)) = Some []
   \<and> fst (predef_filter example_env clashing_handler fresh_return ''hi_e'' 0 9)
       = Inl (rpc_invalid_operation ''Duplicate rpc_iterator_id assigned'')
   \<and> fst (predef_filter example_env clashing_handler fresh_return ''hi_e'' 0 9)
       \<noteq> Inl (rpc_invalid_operation ''Duplicate iterator id'')"
  by (simp add: predef_filter_def new_iterator_id_def map_insert_def)

text \<open>
  Claim C3, amended. With a current table, when the stream of a cursor-open call
  (\<open>adhoc_filter\<close>, \<open>predef_filter\<close>, \<open>combined_filter\<close>,
  \<open>alerts_by_time\<close>) is created without an exception and the freshly allocated id is
  already in the map of that kind, the call throws \<open>rpc_invalid_operation\<close> with the
  message \<open>Duplicate rpc_iterator_id assigned\<close>; the counter has advanced and the maps
  are as they were.
\<close>

theorem duplicate_iterator_id:
  assumes "cur_table_m h = Some t"
  shows
    "(tbl_execute_filter env t expr = Inr res \<and> adhoc_m h (iterator_id_m h) \<noteq> None \<longrightarrow>
        adhoc_filter env h ret expr =
          (Inl (rpc_invalid_operation ''Duplicate rpc_iterator_id assigned''),
           h\<lparr>iterator_id_m := increment_id (iterator_id_bits env) (iterator_id_m h)\<rparr>))
     \<and> (tbl_query_filter env t filter_name b e = Inr res
          \<and> predef_m h (iterator_id_m h) \<noteq> None \<longrightarrow>
        predef_filter env h ret filter_name b e =
          (Inl (rpc_invalid_operation ''Duplicate rpc_iterator_id assigned''),
           h\<lparr>iterator_id_m := increment_id (iterator_id_bits env) (iterator_id_m h)\<rparr>))
     \<and> (tbl_query_filter_expr env t filter_name expr b e = Inr res
          \<and> combined_m h (iterator_id_m h) \<noteq> None \<longrightarrow>
        combined_filter env h ret filter_name expr b e =
          (Inl (rpc_invalid_operation ''Duplicate rpc_iterator_id assigned''),
           h\<lparr>iterator_id_m := increment_id (iterator_id_bits env) (iterator_id_m h)\<rparr>))
     \<and> (tbl_get_alerts env t b e = Inr alerts \<and> alerts_m h (iterator_id_m h) \<noteq> None \<longrightarrow>
        alerts_by_time env h ret b e =
          (Inl (rpc_invalid_operation ''Duplicate rpc_iterator_id assigned''),
           h\<lparr>iterator_id_m := increment_id (iterator_id_bits env) (iterator_id_m h)\<rparr>))"
  using assms
  by (auto simp: adhoc_filter_def predef_filter_def combined_filter_def alerts_by_time_def
      new_iterator_id_def map_insert_def)

text \<open>
  On the handler whose four maps all hold the id 0 that the counter stands at.
\<close>

theorem duplicate_iterator_id_witness:
  "cur_table_m clashing_handler = Some ()
   \<and> tbl_execute_filter example_env () ''e > 0'' = Inr [''r0'', ''r1'', ''r2'']
   \<and> adhoc_m clashing_handler (iterator_id_m clashing_handler) \<noteq> None
   \<and> fst (adhoc_filter example_env clashing_handler fresh_return ''e > 0'')
       = Inl (rpc_invalid_operation ''Duplicate rpc_iterator_id assigned'')
   \<and> predef_m clashing_handler (iterator_id_m clashing_handler) \<noteq> None
   \<and> fst (predef_filter example_env clashing_handler fresh_return ''hi_e'' 0 9)
       = Inl (rpc_invalid_operation ''Duplicate rpc_iterator_id assigned'')
   \<and> combined_m clashing_handler (iterator_id_m clashing_handler) \<noteq> None
   \<and> fst (combined_filter example_env clashing_handler fresh_return ''hi_e'' ''e > 0'' 0 9)
       = Inl (rpc_invalid_operation ''Duplicate rpc_iterator_id assigned'')
   \<and> alerts_m clashing_handler (iterator_id_m clashing_handler) \<noteq> None
   \<and> fst (alerts_by_time example_env clashing_handler fresh_return 0 9)
       = Inl (rpc_invalid_operation ''Duplicate rpc_iterator_id assigned'')"
  using duplicate_iterator_id [where h = clashing_handler and t = "()" and env = example_env
      and expr = "''e > 0''" and res = "[''r0'', ''r1'', ''r2'']" and ret = fresh_return]
    duplicate_iterator_id [where h = clashing_handler and t = "()" and env = example_env
      and filter_name = "''hi_e''" and b = 0 and e = 9
      and res = "[''r0'', ''r1'', ''r2'', ''r3'', ''r4'']" and ret = fresh_return]
    duplicate_iterator_id [where h = clashing_handler and t = "()" and env = example_env
      and filter_name = "''hi_e''" and expr = "''e > 0''" and b = 0 and e = 9
      and res = "[''r1'']" and ret = fresh_return]
    duplicate_iterator_id [where h = clashing_handler and t = "()" and env = example_env
      and b = 0 and e = 9 and alerts = "[''hi|5|3'', ''hi|6|4'', ''hi|9|3'']"
      and ret = fresh_return]
  by simp

subsection \<open>C4: parse failures\<close>

text \<open>
  Claim C4. With a current table, when the table answers an expression with a
  \<open>parse_exception\<close>, \<open>add_filter\<close> and \<open>add_trigger\<close> throw
  \<open>rpc_management_exception\<close> and \<open>adhoc_filter\<close> and
  \<open>combined_filter\<close> throw \<open>rpc_invalid_operation\<close>, each with the message
  of the parse failure. The two cursor calls have used up an iterator id by then.
\<close>

theorem parse_failure_conversion:
  assumes "cur_table_m h = Some t"
  shows
    "(tbl_add_filter env t filter_name expr = Inl (parse_exception msg) \<longrightarrow>
        add_filter env h filter_name expr = (Inl (rpc_management_exception msg), h))
     \<and> (tbl_add_trigger env t trigger_name filter_name expr = Inl (parse_exception msg) \<longrightarrow>
        add_trigger env h trigger_name filter_name expr = (Inl (rpc_management_exception msg), h))
     \<and> (tbl_execute_filter env t expr = Inl (parse_exception msg) \<longrightarrow>
        adhoc_filter env h ret expr =
          (Inl (rpc_invalid_operation msg),
           h\<lparr>iterator_id_m := increment_id (iterator_id_bits env) (iterator_id_m h)\<rparr>))
     \<and> (tbl_query_filter_expr env t filter_name expr b e = Inl (parse_exception msg) \<longrightarrow>
        combined_filter env h ret filter_name expr b e =
          (Inl (rpc_invalid_operation msg),
           h\<lparr>iterator_id_m := increment_id (iterator_id_bits env) (iterator_id_m h)\<rparr>))"
  using assms
  by (simp add: add_filter_def add_trigger_def adhoc_filter_def combined_filter_def
      catch_management_parse_def catch_parse_def new_iterator_id_def)

text \<open>
  On the example, whose table does not parse the expression \<open>e >\<close>.
\<close>

theorem parse_failure_conversion_witness:
  "cur_table_m example_handler = Some ()
   \<and> tbl_add_filter example_env () ''hi_e'' ''e >'' = Inl (parse_exception ''unexpected end'')
   \<and> add_filter example_env example_handler ''hi_e'' ''e >''
       = (Inl (rpc_management_exception ''unexpected end''), example_handler)
   \<and> tbl_add_trigger example_env () ''many'' ''hi_e'' ''e >''
       = Inl (parse_exception ''unexpected end'')
   \<and> add_trigger example_env example_handler ''many'' ''hi_e'' ''e >''
       = (Inl (rpc_management_exception ''unexpected end''), example_handler)
   \<and> tbl_execute_filter example_env () ''e >'' = Inl (parse_exception ''unexpected end'')
   \<and> fst (adhoc_filter example_env example_handler fresh_return ''e >'')
       = Inl (rpc_invalid_operation ''unexpected end'')
   \<and> tbl_query_filter_expr example_env () ''hi_e'' ''e >'' 0 9
       = Inl (parse_exception ''unexpected end'')
   \<and> fst (combined_filter example_env example_handler fresh_return ''hi_e'' ''e >'' 0 9)
       = Inl (rpc_invalid_operation ''unexpected end'')"
  using parse_failure_conversion [of example_handler "()" example_env "''hi_e''" "''e >''"
      "''unexpected end''" "''many''" fresh_return 0 9]
  by simp

subsection \<open>C5: an unknown cursor\<close>

text \<open>
  Claim C5. When the descriptor passes the handler check and the map of its kind holds no
  cursor of its id, \<open>get_more\<close> throws \<open>rpc_invalid_operation\<close> with the
  message \<open>No such iterator\<close>, and the handler is as it was.
\<close>

theorem get_more_unknown_cursor:
  assumes "handler_id d = handler_id_m h"
    and "\<not> has_cursor h (type_desc d) (id_desc d)"
  shows "get_more env h ret d = (Inl (rpc_invalid_operation ''No such iterator''), h)"
  using assms
  by (cases "type_desc d")
    (simp_all add: get_more_def has_cursor_def adhoc_more_def predef_more_def
      combined_more_def alerts_more_def)

text \<open>
  On the example: the handler has opened no alerts cursor, and none of id 5.
\<close>

theorem get_more_unknown_cursor_witness:
  "handler_id (descriptor RPC_ALERT 7 5 RPC_ALERTS) = handler_id_m example_open_handler
   \<and> \<not> has_cursor example_open_handler RPC_ALERTS 5
   \<and> get_more example_env example_open_handler fresh_return (descriptor RPC_ALERT 7 5 RPC_ALERTS)
       = (Inl (rpc_invalid_operation ''No such iterator''), example_open_handler)"
  using get_more_unknown_cursor [of "descriptor RPC_ALERT 7 5 RPC_ALERTS" example_open_handler
      example_env fresh_return]
  by (simp add: has_cursor_def)

subsection \<open>C6: cursor ids\<close>

text \<open>
  Claim C6 says that the counter goes up by one on every cursor-open call and that no id is
  ever given twice in a session. The counter is an integer of a fixed width, and it wraps
  around. With ids of 64 bits, the first cursor-open call of a session gets the id 0; after
  \<open>2 ^ 64\<close> cursor-open calls the alerts map still holds the cursor 0, the counter is 0
  again and not the number of calls made, and the next cursor-open call gets the id 0 a
  second time. The same holds with ids of 32 bits after \<open>2 ^ 32\<close> calls.
\<close>

theorem cursor_ids_unique_counterexample:
  "fst (new_iterator_id example_env
      (run [(example_env, Set_current_table ''my_table'')]
         (dialog_service_handler :: (unit, string) handler))) = 0
   \<and> open_calls (long_session example_env (2 ^ 64 - 1)) = 2 ^ 64
   \<and> has_cursor (run (long_session example_env (2 ^ 64 - 1))
        (dialog_service_handler :: (unit, string) handler)) RPC_ALERTS 0
   \<and> iterator_id_m (run (long_session example_env (2 ^ 64 - 1))
        (dialog_service_handler :: (unit, string) handler)) = 0
   \<and> fst (new_iterator_id example_env (run (long_session example_env (2 ^ 64 - 1))
        (dialog_service_handler :: (unit, string) handler))) = 0
   \<and> has_cursor (run (long_session example_env32 (2 ^ 32 - 1))
        (dialog_service_handler :: (unit, string) handler)) RPC_ALERTS 0
   \<and> fst (new_iterator_id example_env32 (run (long_session example_env32 (2 ^ 32 - 1))
        (dialog_service_handler :: (unit, string) handler))) = 0"
proof -
  have first: "fst (new_iterator_id example_env
      (run [(example_env, Set_current_table ''my_table'')]
         (dialog_service_handler :: (unit, string) handler))) = 0"
    by (simp add: new_iterator_id_def other_snd dialog_service_handler_def)
  have opens64: "open_calls (long_session example_env (2 ^ 64 - 1)) = 2 ^ 64"
    by (simp add: long_session_open_calls)
  from counter_wraps_around [of example_env "()" "[''hi|5|3'', ''hi|6|4'', ''hi|9|3'']"]
  have w64: "has_cursor (run (long_session example_env (2 ^ 64 - 1))
        (dialog_service_handler :: (unit, string) handler)) RPC_ALERTS 0
    \<and> iterator_id_m (run (long_session example_env (2 ^ 64 - 1))
        (dialog_service_handler :: (unit, string) handler)) = 0"
    by simp
  from counter_wraps_around [of example_env32 "()" "[''hi|5|3'', ''hi|6|4'', ''hi|9|3'']"]
  have w32: "has_cursor (run (long_session example_env32 (2 ^ 32 - 1))
        (dialog_service_handler :: (unit, string) handler)) RPC_ALERTS 0
    \<and> iterator_id_m (run (long_session example_env32 (2 ^ 32 - 1))
        (dialog_service_handler :: (unit, string) handler)) = 0"
    by (simp add: example_env32_def)
  from first opens64 w64 w32 show ?thesis by (simp add: new_iterator_id_def)
qed

text \<open>
  Claim C6, amended. Let \<open>w\<close> be the bit width of \<open>rpc_iterator_id\<close>, and take a
  session that makes fewer than \<open>2 ^ (w - 1)\<close> cursor-open calls. The constructor sets
  the counter to 0; \<open>new_iterator_id\<close> returns the counter and increments it; every
  call of the session adds one to the counter when it is one of the four cursor-open calls
  (whether or not it then throws) and leaves it alone otherwise. So after the session the
  counter is the number of cursor-open calls made, and the id that such a call gets is the
  number of those before it. Every id in one of the four maps lies from 0 up to, and not
  including, the counter; no id is in two maps; the id that the next cursor-open call will
  get is in none; and the id that a cursor-open call of the session got is less than it.
\<close>

theorem cursor_ids_unique:
  assumes width: "0 < w"
    and same: "list_all (\<lambda>(env, c). iterator_id_bits env = w) tr"
    and bound: "int (open_calls tr) < 2 ^ (w - 1)"
  shows
    "iterator_id_m (dialog_service_handler :: ('t, 'a) handler) = 0
   \<and> new_iterator_id env h =
       (iterator_id_m h,
        h\<lparr>iterator_id_m := increment_id (iterator_id_bits env) (iterator_id_m h)\<rparr>)
   \<and> iterator_id_m (run tr (dialog_service_handler :: ('t, 'a) handler)) = int (open_calls tr)
   \<and> (\<forall>tr1 env' c' tr2. tr = tr1 @ (env', c') # tr2 \<longrightarrow>
         iterator_id_m (step env' c' (run tr1 (dialog_service_handler :: ('t, 'a) handler))) =
           iterator_id_m (run tr1 (dialog_service_handler :: ('t, 'a) handler))
             + (if opens c' = None then 0 else 1))
   \<and> (\<forall>k i. has_cursor (run tr (dialog_service_handler :: ('t, 'a) handler)) k i \<longrightarrow>
         0 \<le> i \<and> i < iterator_id_m (run tr (dialog_service_handler :: ('t, 'a) handler)))
   \<and> (\<forall>k k' i. has_cursor (run tr (dialog_service_handler :: ('t, 'a) handler)) k i
         \<and> has_cursor (run tr (dialog_service_handler :: ('t, 'a) handler)) k' i \<longrightarrow> k = k')
   \<and> (\<forall>k. \<not> has_cursor (run tr (dialog_service_handler :: ('t, 'a) handler)) k
         (fst (new_iterator_id env (run tr (dialog_service_handler :: ('t, 'a) handler)))))
   \<and> (\<forall>tr1 env' c' tr2. tr = tr1 @ (env', c') # tr2 \<and> opens c' \<noteq> None \<longrightarrow>
         fst (new_iterator_id env' (run tr1 (dialog_service_handler :: ('t, 'a) handler)))
           < fst (new_iterator_id env (run tr (dialog_service_handler :: ('t, 'a) handler))))"
proof -
  let ?init = "dialog_service_handler :: ('t, 'a) handler"
  let ?h = "run tr ?init"
  let ?n = "\<lambda>tr. int (length (filter (\<lambda>(env, c). opens c \<noteq> None) tr))"
  from bound have bound': "?n tr < 2 ^ (w - 1)"
    by (simp add: open_calls_def)
  have 1: "iterator_id_m ?init = 0"
    by (simp add: dialog_service_handler_def)
  have 2: "new_iterator_id env h =
       (iterator_id_m h,
        h\<lparr>iterator_id_m := increment_id (iterator_id_bits env) (iterator_id_m h)\<rparr>)"
    by (simp add: new_iterator_id_def)
  have 3: "iterator_id_m ?h = ?n tr"
    using width same bound' by (rule run_counter)
  have prefix: "iterator_id_m (run tr1 ?init) = ?n tr1
      \<and> iterator_id_m (step env' c' (run tr1 ?init)) = ?n tr1 + (if opens c' = None then 0 else 1)
      \<and> ?n tr1 + (if opens c' = None then 0 else 1) \<le> ?n tr"
    if split: "tr = tr1 @ (env', c') # tr2" for tr1 env' c' tr2
  proof -
    from same split have s1: "list_all (\<lambda>(env, c). iterator_id_bits env = w) tr1"
      and s2: "list_all (\<lambda>(env, c). iterator_id_bits env = w) (tr1 @ [(env', c')])"
      by simp_all
    from split have le: "?n (tr1 @ [(env', c')]) \<le> ?n tr"
      by (simp del: not_None_eq)
    with bound' have b2: "?n (tr1 @ [(env', c')]) < 2 ^ (w - 1)" by linarith
    have "?n tr1 \<le> ?n (tr1 @ [(env', c')])" by (simp del: not_None_eq)
    with b2 have b1: "?n tr1 < 2 ^ (w - 1)" by linarith
    from run_counter [OF width s1 b1] have c1: "iterator_id_m (run tr1 ?init) = ?n tr1" .
    from run_counter [OF width s2 b2]
    have "iterator_id_m (step env' c' (run tr1 ?init)) = ?n (tr1 @ [(env', c')])"
      by (simp add: run_append)
    with c1 le show ?thesis by (cases "opens c' = None") (simp_all del: not_None_eq)
  qed
  have 4: "\<forall>tr1 env' c' tr2. tr = tr1 @ (env', c') # tr2 \<longrightarrow>
         iterator_id_m (step env' c' (run tr1 ?init)) =
           iterator_id_m (run tr1 ?init) + (if opens c' = None then 0 else 1)"
    using prefix by simp
  have 5: "\<forall>k i. has_cursor ?h k i \<longrightarrow> 0 \<le> i \<and> i < iterator_id_m ?h"
    using session_invariant [OF width same bound'] by blast
  have 6: "\<forall>k k' i. has_cursor ?h k i \<and> has_cursor ?h k' i \<longrightarrow> k = k'"
    using session_invariant [OF width same bound'] by blast
  have 7: "\<forall>k. \<not> has_cursor ?h k (fst (new_iterator_id env ?h))"
    using 5 by (auto simp: new_iterator_id_def)
  have 8: "\<forall>tr1 env' c' tr2. tr = tr1 @ (env', c') # tr2 \<and> opens c' \<noteq> None \<longrightarrow>
         fst (new_iterator_id env' (run tr1 ?init)) < fst (new_iterator_id env ?h)"
  proof (intro allI impI)
    fix tr1 env' c' tr2
    assume a: "tr = tr1 @ (env', c') # tr2 \<and> opens c' \<noteq> None"
    with prefix [of tr1 env' c' tr2]
    have "iterator_id_m (run tr1 ?init) = ?n tr1" and "?n tr1 + 1 \<le> ?n tr"
      by simp_all
    with 3 show "fst (new_iterator_id env' (run tr1 ?init)) < fst (new_iterator_id env ?h)"
      by (simp add: new_iterator_id_def)
  qed
  from 3 have 3: "iterator_id_m ?h = int (open_calls tr)"
    by (simp add: open_calls_def)
  from 1 2 3 4 5 6 7 8 show ?thesis by blast
qed

text \<open>
  On the example session, with ids of 64 bits: three cursor-open calls, of which the second
  throws on its expression; the cursors have the ids 0 and 2, and the next id is 3, above
  the id 0 that the first of them got.
\<close>

theorem cursor_ids_unique_witness:
  "(0::nat) < 64
   \<and> list_all (\<lambda>(env, c). iterator_id_bits env = 64) example_trace
   \<and> int (open_calls example_trace) < 2 ^ (64 - 1)
   \<and> open_calls example_trace = 3
   \<and> iterator_id_m (run example_trace dialog_service_handler) = 3
   \<and> has_cursor (run example_trace dialog_service_handler) RPC_ADHOC 0
   \<and> has_cursor (run example_trace dialog_service_handler) RPC_ALERTS 2
   \<and> \<not> has_cursor (run example_trace dialog_service_handler) RPC_ALERTS 0
   \<and> \<not> has_cursor (run example_trace dialog_service_handler) RPC_ADHOC 3
   \<and> fst (new_iterator_id example_env (run example_trace dialog_service_handler)) = 3
   \<and> opens (Adhoc_filter fresh_return ''e > 0'' :: (unit, unit, unit, unit) call) \<noteq> None
   \<and> iterator_id_m (step example_env (Adhoc_filter fresh_return ''e > 0'')
        (run (take 2 example_trace) dialog_service_handler)) = 1
   \<and> fst (new_iterator_id example_env (run (take 2 example_trace) dialog_service_handler))
       < fst (new_iterator_id example_env (run example_trace dialog_service_handler))"
proof -
  let ?init = "dialog_service_handler :: (unit, string) handler"
  let ?h = "run example_trace ?init"
  let ?c = "Adhoc_filter fresh_return ''e > 0'' :: (unit, unit, unit, unit) call"
  have width: "(0::nat) < 64" by simp
  have same: "list_all (\<lambda>(env, c). iterator_id_bits env = 64) example_trace"
    by (simp add: example_trace_def)
  have count: "open_calls example_trace = 3"
    by (simp add: open_calls_def example_trace_def)
  then have bound: "int (open_calls example_trace) < 2 ^ (64 - 1)"
    by simp
  have split: "example_trace = take 2 example_trace @ (example_env, ?c) # drop 3 example_trace"
    by (simp add: example_trace_def)
  have opened: "opens ?c \<noteq> None" by simp
  note facts = cursor_ids_unique [OF width same bound, where env = example_env]
  have adhoc: "has_cursor ?h RPC_ADHOC 0" and alerts: "has_cursor ?h RPC_ALERTS 2"
    by (simp_all add: example_trace_run example_trace_end_def has_cursor_def)
  from facts count have counter: "iterator_id_m ?h = 3" by simp
  then have next_id: "fst (new_iterator_id example_env ?h) = 3"
    by (simp add: new_iterator_id_def)
  from facts have "\<forall>k. \<not> has_cursor ?h k (fst (new_iterator_id example_env ?h))" by blast
  with next_id have 1: "\<not> has_cursor ?h RPC_ADHOC 3" by simp
  from facts adhoc have 2: "\<not> has_cursor ?h RPC_ALERTS 0" by blast
  from facts split
  have "iterator_id_m (step example_env ?c (run (take 2 example_trace) ?init)) =
      iterator_id_m (run (take 2 example_trace) ?init) + (if opens ?c = None then 0 else 1)"
    by blast
  moreover have "iterator_id_m (run (take 2 example_trace) ?init) = 0"
    by (simp add: example_trace_def other_snd dialog_service_handler_def)
  ultimately have 3: "iterator_id_m (step example_env ?c (run (take 2 example_trace) ?init)) = 1"
    by simp
  from facts split opened
  have 4: "fst (new_iterator_id example_env (run (take 2 example_trace) ?init))
      < fst (new_iterator_id example_env ?h)"
    by blast
  from width same bound count counter adhoc alerts 1 2 3 4 next_id opened show ?thesis
    by blast
qed

subsection \<open>C7: append and read\<close>

text \<open>
  Claim C7, on the record store modelled from the specification. When records of the
  store's record size (which is positive) are appended one after the other to a new store,
  there is one offset for each, reading at the offset of the \<open>i\<close>-th append gives
  the bytes of the \<open>i\<close>-th record, and \<open>num_records\<close> is the number of
  records appended. So \<open>test_append_and_get\<close> passes on a new store, whatever the
  number of records, when its \<open>DATA_SIZE\<close> is the record size.
\<close>

theorem append_read_round_trip:
  assumes size: "0 < n"
    and records: "\<forall>r\<in>set rs. length r = n"
    and appended: "rs_append_all (new_record_store n) rs = (offsets, st)"
  shows "length offsets = length rs
    \<and> (\<forall>i<length rs. rs_read st (offsets ! i) = Some (rs ! i))
    \<and> rs_num_records st = length rs
    \<and> test_append_and_get (new_record_store n) max_records n"
  using append_all_reads [OF size records appended] test_append_and_get_passes [OF size]
  by blast

text \<open>
  Three records of two bytes; and the test with its own constants, 2560 records of 64
  bytes.
\<close>

theorem append_read_round_trip_witness:
  "(0::nat) < 2 \<and> length ''aa'' = 2 \<and> length ''bb'' = 2 \<and> length ''cc'' = 2
   \<and> rs_append_all (new_record_store 2) [''aa'', ''bb'', ''cc'']
       = ([0, 2, 4], \<lparr>record_size = 2, arena = ''aabbcc''\<rparr>)
   \<and> rs_read \<lparr>record_size = 2, arena = ''aabbcc''\<rparr> 0 = Some ''aa''
   \<and> rs_read \<lparr>record_size = 2, arena = ''aabbcc''\<rparr> 2 = Some ''bb''
   \<and> rs_read \<lparr>record_size = 2, arena = ''aabbcc''\<rparr> 4 = Some ''cc''
   \<and> rs_num_records \<lparr>record_size = 2, arena = ''aabbcc''\<rparr> = 3
   \<and> test_append_and_get (new_record_store 64) 2560 64"
proof -
  have run: "rs_append_all (new_record_store 2) [''aa'', ''bb'', ''cc'']
       = ([0, 2, 4], \<lparr>record_size = 2, arena = ''aabbcc''\<rparr>)"
    by (simp add: new_record_store_def rs_append_def rs_tail_def)
  have size: "(0::nat) < 2" by simp
  have records: "\<forall>r\<in>set [''aa'', ''bb'', ''cc'']. length r = 2" by simp
  note facts = append_read_round_trip [OF size records run]
  from facts have reads: "\<forall>i<length [''aa'', ''bb'', ''cc''].
      rs_read \<lparr>record_size = 2, arena = ''aabbcc''\<rparr> ([0, 2, 4] ! i)
        = Some ([''aa'', ''bb'', ''cc''] ! i)"
    by (rule conjunct2 [THEN conjunct1])
  from facts have count: "rs_num_records \<lparr>record_size = 2, arena = ''aabbcc''\<rparr> = 3"
    by simp
  from reads [rule_format, of 0] reads [rule_format, of 1] reads [rule_format, of 2]
  have "rs_read \<lparr>record_size = 2, arena = ''aabbcc''\<rparr> 0 = Some ''aa''
     \<and> rs_read \<lparr>record_size = 2, arena = ''aabbcc''\<rparr> 2 = Some ''bb''
     \<and> rs_read \<lparr>record_size = 2, arena = ''aabbcc''\<rparr> 4 = Some ''cc''"
    by simp
  moreover have "test_append_and_get (new_record_store 64) 2560 64"
  proof -
    have size': "(0::nat) < 64" by simp
    have records': "\<forall>r\<in>set ([] :: string list). length r = 64" by simp
    have run': "rs_append_all (new_record_store 64) [] = ([], new_record_store 64)" by simp
    from append_read_round_trip [OF size' records' run', of 2560] show ?thesis by blast
  qed
  ultimately show ?thesis using run count by simp
qed

subsection \<open>C8: removing a table\<close>

text \<open>
  Claim C8, on the table registry modelled from the specification. In a registry reached
  from the empty one, \<open>remove_table\<close> by the id of a table that is there returns a
  value other than -1, and \<open>remove_table\<close> by a name that no table has fails with
  the management error whose message is \<open>No such table\<close>, a space and the name; the
  registry is then as it was. So \<open>AddTableTest\<close> and \<open>RemoveTableTest\<close> pass,
  for any schema.
\<close>

theorem remove_table_results:
  assumes "st = store_run cs empty_store"
  shows "(tables_by_id st i \<noteq> None \<longrightarrow> fst (remove_table st i) \<noteq> - 1)
    \<and> (tables st name = None \<longrightarrow>
         remove_table_by_name st name = (Inl (ManagementError (''No such table '' @ name)), st))
    \<and> AddTableTest s \<and> RemoveTableTest s"
proof (intro conjI impI)
  have ids: "\<forall>i tb. tables_by_id st i = Some tb \<longrightarrow> 0 \<le> i \<and> i < next_id st"
    unfolding assms by (rule store_run_ids [THEN conjunct1]) (simp_all add: empty_store_def)
  assume "tables_by_id st i \<noteq> None"
  then obtain tb where tb: "tables_by_id st i = Some tb" by auto
  with ids have "0 \<le> i" by blast
  with tb show "fst (remove_table st i) \<noteq> - 1" by (simp add: remove_table_def)
next
  assume "tables st name = None"
  then show "remove_table_by_name st name = (Inl (ManagementError (''No such table '' @ name)), st)"
    by (simp add: remove_table_by_name_def)
next
  show "AddTableTest s"
    by (simp add: AddTableTest_def add_table_def empty_store_def get_table_id_def Let_def)
next
  show "RemoveTableTest s"
    by (simp add: RemoveTableTest_def add_table_def empty_store_def remove_table_def
        remove_table_by_name_def Let_def)
qed

text \<open>
  The scenario of the test: \<open>my_table\<close> is added and gets the id 0; removing the id
  0 does not return -1; removing \<open>my_table\<close> by name then fails with
  \<open>No such table my_table\<close>.
\<close>

theorem remove_table_results_witness:
  "example_store = store_run [Add_table ''my_table'' ()] empty_store
   \<and> get_table_id example_store ''my_table'' = Some 0
   \<and> tables_by_id example_store 0 \<noteq> None
   \<and> fst (remove_table example_store 0) \<noteq> - 1
   \<and> example_store_removed = store_run [Add_table ''my_table'' (), Remove_table 0] empty_store
   \<and> tables example_store_removed ''my_table'' = None
   \<and> fst (remove_table_by_name example_store_removed ''my_table'')
       = Inl (ManagementError ''No such table my_table'')
   \<and> AddTableTest () \<and> RemoveTableTest ()"
proof -
  have 1: "example_store = store_run [Add_table ''my_table'' ()] empty_store"
    by (rule example_store_run [symmetric])
  have 2: "example_store_removed
      = store_run [Add_table ''my_table'' (), Remove_table 0] empty_store"
    by (rule example_store_removed_run [symmetric])
  have 3: "tables_by_id example_store 0 \<noteq> None" by (simp add: example_store_def)
  have 4: "tables example_store_removed ''my_table'' = None"
    by (simp add: example_store_removed_def)
  have 5: "get_table_id example_store ''my_table'' = Some 0"
    by (simp add: example_store_def get_table_id_def)
  from remove_table_results [OF 1, of 0, THEN conjunct1, rule_format, OF 3]
  have 6: "fst (remove_table example_store 0) \<noteq> - 1" .
  from remove_table_results [OF 2, of _ "''my_table''", THEN conjunct2, THEN conjunct1,
      rule_format, OF 4]
  have 7: "fst (remove_table_by_name example_store_removed ''my_table'')
       = Inl (ManagementError ''No such table my_table'')"
    by simp
  from remove_table_results [OF 1, of _ _ "()"]
  have 8: "AddTableTest () \<and> RemoveTableTest ()" by blast
  from 1 2 3 4 5 6 7 8 show ?thesis by blast
qed

subsection \<open>C9: pages of alerts\<close>

text \<open>
  Claim C9. A page of an alerts cursor, from \<open>get_more\<close> with a descriptor of kind
  \<open>RPC_ALERTS\<close> that passes the handler check or from \<open>alerts_by_time\<close> on a
  fresh id, has \<open>min ITERATOR_BATCH_SIZE (length alerts)\<close> entries: the first alerts
  of the range, in its order. Its \<open>data\<close> is what was in \<open>_return\<close> followed,
  for each of these alerts in turn, by the text of the alert and one newline character; the
  cursor keeps the alerts after them.
\<close>

theorem alerts_page_format:
  "(handler_id d = handler_id_m h \<and> type_desc d = RPC_ALERTS
      \<and> alerts_m h (id_desc d) = Some alerts \<longrightarrow>
    (\<exists>page h'. get_more env h ret d = (Inr page, h')
       \<and> num_entries page = min (ITERATOR_BATCH_SIZE env) (length alerts)
       \<and> data page = data ret @
           concat (map (\<lambda>a. alert_to_string env a @ [CHR 0x0A]) (take (num_entries page) alerts))
       \<and> alerts_m h' (id_desc d) = Some (drop (num_entries page) alerts)))
   \<and> (cur_table_m h = Some t \<and> tbl_get_alerts env t b e = Inr alerts
      \<and> alerts_m h (iterator_id_m h) = None \<longrightarrow>
    (\<exists>page h'. alerts_by_time env h ret b e = (Inr page, h')
       \<and> num_entries page = min (ITERATOR_BATCH_SIZE env) (length alerts)
       \<and> data page = data ret @
           concat (map (\<lambda>a. alert_to_string env a @ [CHR 0x0A]) (take (num_entries page) alerts))
       \<and> alerts_m h' (iterator_id_m h) = Some (drop (num_entries page) alerts)))"
proof (intro conjI impI)
  let ?b = "ITERATOR_BATCH_SIZE env"
  have t: "take (min ?b (length alerts)) alerts = take ?b alerts"
    by (simp add: min_def)
  have d: "drop (min ?b (length alerts)) alerts = drop ?b alerts"
    by (simp add: min_def)
  {
    assume a: "handler_id d = handler_id_m h \<and> type_desc d = RPC_ALERTS
      \<and> alerts_m h (id_desc d) = Some alerts"
    then have "get_more env h ret d = alerts_more env h ret (id_desc d)"
      by (simp add: get_more_def)
    with a show "\<exists>page h'. get_more env h ret d = (Inr page, h')
       \<and> num_entries page = min (ITERATOR_BATCH_SIZE env) (length alerts)
       \<and> data page = data ret @
           concat (map (\<lambda>a. alert_to_string env a @ [CHR 0x0A]) (take (num_entries page) alerts))
       \<and> alerts_m h' (id_desc d) = Some (drop (num_entries page) alerts)"
      by (simp add: alerts_more_page page_of_def t d take_map alert_line_def [abs_def])
  next
    assume a: "cur_table_m h = Some t \<and> tbl_get_alerts env t b e = Inr alerts
      \<and> alerts_m h (iterator_id_m h) = None"
    then have "alerts_by_time env h ret b e =
        alerts_more env (h\<lparr>iterator_id_m := increment_id (iterator_id_bits env) (iterator_id_m h),
                      alerts_m := (alerts_m h)(iterator_id_m h \<mapsto> alerts)\<rparr>) ret (iterator_id_m h)"
      by (simp add: alerts_by_time_opened)
    then show "\<exists>page h'. alerts_by_time env h ret b e = (Inr page, h')
       \<and> num_entries page = min (ITERATOR_BATCH_SIZE env) (length alerts)
       \<and> data page = data ret @
           concat (map (\<lambda>a. alert_to_string env a @ [CHR 0x0A]) (take (num_entries page) alerts))
       \<and> alerts_m h' (iterator_id_m h) = Some (drop (num_entries page) alerts)"
      by (simp add: alerts_more_page page_of_def t d take_map alert_line_def [abs_def])
  }
qed

text \<open>
  On the example: of three alerts, the first page has two, each on a line of its own.
\<close>

theorem alerts_page_format_witness:
  "handler_id (descriptor RPC_ALERT 7 2 RPC_ALERTS) = handler_id_m example_trace_end
   \<and> alerts_m example_trace_end 2 = Some []
   \<and> cur_table_m example_handler = Some ()
   \<and> tbl_get_alerts example_env () 0 9 = Inr [''hi|5|3'', ''hi|6|4'', ''hi|9|3'']
   \<and> alerts_m example_handler (iterator_id_m example_handler) = None
   \<and> (\<exists>page h'. alerts_by_time example_env example_handler fresh_return 0 9 = (Inr page, h')
        \<and> num_entries page = 2
        \<and> data page = ''hi|5|3'' @ [CHR 0x0A] @ ''hi|6|4'' @ [CHR 0x0A]
        \<and> alerts_m h' 0 = Some [''hi|9|3''])"
proof -
  have hyp: "cur_table_m example_handler = Some ()
      \<and> tbl_get_alerts example_env () 0 9 = Inr [''hi|5|3'', ''hi|6|4'', ''hi|9|3'']
      \<and> alerts_m example_handler (iterator_id_m example_handler) = None"
    by simp
  from alerts_page_format [where h = example_handler and env = example_env and t = "()"
      and b = 0 and e = 9 and alerts = "[''hi|5|3'', ''hi|6|4'', ''hi|9|3'']"
      and ret = fresh_return, THEN conjunct2, rule_format, OF hyp]
  obtain page h' where "alerts_by_time example_env example_handler fresh_return 0 9 = (Inr page, h')"
    and n: "num_entries page = 2"
    and "data page = data fresh_return @ concat (map (\<lambda>a. alert_to_string example_env a @ [CHR 0x0A])
          (take (num_entries page) [''hi|5|3'', ''hi|6|4'', ''hi|9|3'']))"
    and "alerts_m h' (iterator_id_m example_handler) =
          Some (drop (num_entries page) [''hi|5|3'', ''hi|6|4'', ''hi|9|3''])"
    by auto
  then have "alerts_by_time example_env example_handler fresh_return 0 9 = (Inr page, h')
        \<and> num_entries page = 2
        \<and> data page = ''hi|5|3'' @ [CHR 0x0A] @ ''hi|6|4'' @ [CHR 0x0A]
        \<and> alerts_m h' 0 = Some [''hi|9|3'']"
    by (simp add: numeral_2_eq_2)
  then have "\<exists>page h'. alerts_by_time example_env example_handler fresh_return 0 9 = (Inr page, h')
        \<and> num_entries page = 2
        \<and> data page = ''hi|5|3'' @ [CHR 0x0A] @ ''hi|6|4'' @ [CHR 0x0A]
        \<and> alerts_m h' 0 = Some [''hi|9|3'']"
    by blast
  with hyp show ?thesis by (simp add: example_trace_end_def)
qed

subsection \<open>C10: cursors stay\<close>



end
